theory Spec2Isabelle
  imports Main
begin

section \<open>Data model (the mongoose schemas of src/index.js)\<close>

text \<open>
  Discord ids (snowflakes) are strings, as in the source; mongoose ObjectIds are natural
  numbers handed out by a counter of the store; a Date is a number of milliseconds.
\<close>

type_synonym snowflake = string
type_synonym object_id = nat
type_synonym date = nat

datatype status = Open | Closed

datatype priority = Low | Normal | High | Urgent

record ticket_note =
  note_user_id :: snowflake
  note_content :: string
  note_timestamp :: date

text \<open>ticketSchema. Optional fields are options; \<open>t_id\<close> is the document's \<open>_id\<close>.\<close>

record ticket =
  t_id :: object_id
  user_id :: snowflake
  guild_id :: "snowflake option"
  channel_id :: snowflake
  status :: status
  created_at :: date
  closed_at :: "date option"
  closed_by :: "snowflake option"
  claimed_by :: "snowflake option"
  claimed_at :: "date option"
  priority :: priority
  category :: "string option"
  ticket_notes :: "ticket_note list"

text \<open>messageSchema.\<close>

record message_row =
  m_ticket_id :: object_id
  m_user_id :: snowflake
  m_content :: string
  m_attachments :: "string list"
  m_timestamp :: date
  m_is_staff :: bool

text \<open>guildSchema (model GuildSetting).\<close>

record guild_setting =
  gs_guild_id :: snowflake
  gs_name :: "string option"
  gs_modmail_category_id :: "snowflake option"
  gs_staff_role_id :: "snowflake option"
  gs_log_channel_id :: "snowflake option"
  gs_is_default :: bool
  gs_created_at :: date

text \<open>blockedUserSchema.\<close>

record blocked_user =
  b_user_id :: snowflake
  b_blocked_at :: date
  b_blocked_by :: "snowflake option"
  b_reason :: "string option"

text \<open>
  The store: the four collections in insertion order, the ObjectId counter, and whether
  the database currently accepts writes (\<open>save\<close> rejects when it does not).
\<close>

record store =
  tickets :: "ticket list"
  messages :: "message_row list"
  guild_settings :: "guild_setting list"
  blocked_users :: "blocked_user list"
  next_oid :: object_id
  writable :: bool

text \<open>process.env: the variables the engine reads; an unset variable is \<open>None\<close>.\<close>

record env =
  GUILD_ID :: "string option"
  STAFF_ROLE_ID :: "string option"
  MODMAIL_CATEGORY_ID :: "string option"
  LOG_CHANNEL_ID :: "string option"

text \<open>JavaScript truthiness of an optional string, and \<open>a || b\<close> on such values.\<close>

definition truthy :: "string option \<Rightarrow> bool" where
  "truthy v = (case v of None \<Rightarrow> False | Some s \<Rightarrow> s \<noteq> [])"

definition js_or :: "string option \<Rightarrow> string option \<Rightarrow> string option" where
  "js_or a b = (if truthy a then a else b)"

subsection \<open>Store queries and writes\<close>

text \<open>\<open>Ticket.findById\<close>, and \<open>Ticket.findOne\<close> with a filter: the first match.\<close>

definition findById :: "store \<Rightarrow> object_id \<Rightarrow> ticket option" where
  "findById st i = find (\<lambda>t. t_id t = i) (tickets st)"

definition findOneTicket :: "store \<Rightarrow> (ticket \<Rightarrow> bool) \<Rightarrow> ticket option" where
  "findOneTicket st q = find q (tickets st)"

text \<open>\<open>ticket.save()\<close> of a loaded document: replaces the row with the same \<open>_id\<close>.\<close>

definition save_ticket :: "store \<Rightarrow> ticket \<Rightarrow> store option" where
  "save_ticket st t =
     (if writable st
      then Some (st\<lparr>tickets := map (\<lambda>x. if t_id x = t_id t then t else x) (tickets st)\<rparr>)
      else None)"

text \<open>\<open>new Message({...}).save()\<close>: appends a row.\<close>

definition insert_message :: "store \<Rightarrow> message_row \<Rightarrow> store option" where
  "insert_message st m =
     (if writable st then Some (st\<lparr>messages := messages st @ [m]\<rparr>) else None)"

section \<open>The chat platform as the engine sees it\<close>

record member =
  mem_user :: snowflake
  mem_roles :: "snowflake list"
  mem_admin :: bool

text \<open>
  A guild of the client cache: its members (what \<open>guild.members.fetch\<close> finds), the role
  ids of \<open>roles.cache\<close>, the role ids \<open>roles.fetch\<close> finds, and the channel ids of
  \<open>channels.cache\<close>.
\<close>

record guild =
  g_id :: snowflake
  g_name :: string
  g_members :: "member list"
  g_roles_cache :: "snowflake list"
  g_roles :: "snowflake list"
  g_channels_cache :: "snowflake list"

record overwrite =
  ow_id :: snowflake
  ow_allow :: "string list"
  ow_deny :: "string list"

record channel =
  c_id :: snowflake
  c_guild :: snowflake
  c_name :: string
  c_topic :: "string option"
  c_parent :: "snowflake option"
  c_overwrites :: "overwrite list"

record user =
  u_id :: snowflake
  u_username :: string
  u_tag :: string
  u_created :: date

text \<open>What the bot sends; the wording of the embeds is abstracted to one constructor each.\<close>

datatype notice =
    Blocked_Denied string
  | Config_Error_Not_Configured
  | Not_Member_Of_Any
  | Select_Prompt "(snowflake \<times> string) list"
  | Select_Ack string
  | Only_Own_Messages
  | Selection_Timeout
  | Config_Error_No_Servers
  | Create_Failed
  | Ticket_Created object_id
  | Generic_Error
  | User_Message snowflake string "string list" object_id
  | New_Ticket_Intro snowflake "snowflake option"
  | Log_Ticket_Created snowflake snowflake object_id
  | Closed_Via_Dashboard
  | Closing_In_5
  | Closed_By string object_id
  | Log_Ticket_Closed string string object_id
  | Not_Found_Or_Closed
  | Not_Found
  | Already_Claimed "string option"
  | Claimed_By snowflake
  | Reacted_Ok

text \<open>Where a notice goes: a channel, a user's direct messages, or the reply to an event.\<close>

datatype target = To_Channel snowflake | To_User snowflake | To_Reply snowflake

text \<open>
  The platform state. \<open>guilds_fetch\<close> is the answer of \<open>client.guilds.fetch()\<close>, the ids
  of the guilds the bot is in (\<open>None\<close> when the request fails); \<open>channels\<close> and \<open>users\<close>
  are what \<open>client.channels.fetch\<close> and \<open>client.users.fetch\<close> find. A platform call
  fails where the platform refuses it: sending to a channel or user in \<open>unsendable\<close>,
  deleting a channel in \<open>undeletable\<close>, creating a channel in a guild in \<open>uncreatable\<close>.
  Replies to the event being handled (\<open>message.reply\<close>, \<open>interaction.reply\<close>) are
  recorded in \<open>sent\<close> as delivered.
\<close>

record platform =
  guilds_fetch :: "snowflake list option"
  guilds_cache :: "guild list"
  channels :: "channel list"
  users :: "user list"
  bot_user_id :: snowflake
  next_snowflake :: nat
  unsendable :: "snowflake list"
  undeletable :: "snowflake list"
  uncreatable :: "snowflake list"
  sent :: "(target \<times> notice) list"

definition guilds_cache_get :: "platform \<Rightarrow> string option \<Rightarrow> guild option" where
  "guilds_cache_get pf k =
     (case k of None \<Rightarrow> None | Some i \<Rightarrow> find (\<lambda>g. g_id g = i) (guilds_cache pf))"

definition members_fetch :: "guild \<Rightarrow> snowflake \<Rightarrow> member option" where
  "members_fetch g u = find (\<lambda>m. mem_user m = u) (g_members g)"

definition roles_has :: "member \<Rightarrow> string option \<Rightarrow> bool" where
  "roles_has m r = (case r of None \<Rightarrow> False | Some i \<Rightarrow> i \<in> set (mem_roles m))"

definition channels_fetch :: "platform \<Rightarrow> snowflake \<Rightarrow> channel option" where
  "channels_fetch pf i = find (\<lambda>c. c_id c = i) (channels pf)"

definition users_fetch :: "platform \<Rightarrow> snowflake \<Rightarrow> user option" where
  "users_fetch pf i = find (\<lambda>u. u_id u = i) (users pf)"

text \<open>\<open>channel.delete(reason)\<close>: rejects when the platform refuses the deletion.\<close>

definition channel_delete :: "platform \<Rightarrow> snowflake \<Rightarrow> platform option" where
  "channel_delete pf i =
     (if i \<in> set (undeletable pf) then None
      else Some (pf\<lparr>channels := filter (\<lambda>c. c_id c \<noteq> i) (channels pf)\<rparr>))"

text \<open>\<open>channel.send\<close> and \<open>user.send\<close>.\<close>

definition channel_send :: "platform \<Rightarrow> snowflake \<Rightarrow> notice \<Rightarrow> platform option" where
  "channel_send pf i n =
     (if i \<in> set (unsendable pf) then None
      else Some (pf\<lparr>sent := sent pf @ [(To_Channel i, n)]\<rparr>))"

definition user_send :: "platform \<Rightarrow> snowflake \<Rightarrow> notice \<Rightarrow> platform option" where
  "user_send pf i n =
     (if i \<in> set (unsendable pf) then None
      else Some (pf\<lparr>sent := sent pf @ [(To_User i, n)]\<rparr>))"

text \<open>\<open>message.reply\<close> and \<open>interaction.reply\<close>, keyed by the user replied to.\<close>

definition reply :: "platform \<Rightarrow> snowflake \<Rightarrow> notice \<Rightarrow> platform" where
  "reply pf i n = pf\<lparr>sent := sent pf @ [(To_Reply i, n)]\<rparr>"

text \<open>
  The best-effort notification \<open>try { user = await client.users.fetch(id); await
  user.send(embed) } catch { log }\<close> used by both close paths.
\<close>

definition notify_user :: "platform \<Rightarrow> snowflake \<Rightarrow> notice \<Rightarrow> platform" where
  "notify_user pf i n =
     (case users_fetch pf i of
        None \<Rightarrow> pf
      | Some u \<Rightarrow> (case user_send pf (u_id u) n of None \<Rightarrow> pf | Some pf' \<Rightarrow> pf'))"

section \<open>Dashboard API: the mutating ticket endpoints\<close>

datatype response =
    Redirect string
  | Send_Status nat string
  | Json_Error nat string
  | Json_Success

text \<open>
  A request: the logged-in user of the session, the \<open>:id\<close> route parameter (\<open>None\<close>
  when it is not a well-formed ObjectId, where \<open>findById\<close> throws a cast error), and
  the \<open>content\<close> field of the body.
\<close>

record request =
  session_user :: "snowflake option"
  params_id :: "object_id option"
  body_content :: "string option"

text \<open>The middlewares return \<open>None\<close> for \<open>next()\<close> and the response otherwise.\<close>

definition isAuthenticated :: "request \<Rightarrow> response option" where
  "isAuthenticated req =
     (case session_user req of Some u \<Rightarrow> None | None \<Rightarrow> Some (Redirect ''/login''))"

definition isStaff :: "env \<Rightarrow> platform \<Rightarrow> request \<Rightarrow> response option" where
  "isStaff e pf req =
     (case session_user req of
        None \<Rightarrow> Some (Redirect ''/login'')
      | Some uid \<Rightarrow>
          (case guilds_cache_get pf (GUILD_ID e) of
             None \<Rightarrow> Some (Send_Status 500 ''Guild not found'')
           | Some g \<Rightarrow>
               (case members_fetch g uid of
                  None \<Rightarrow> Some (Send_Status 403 ''You are not a member of the server'')
                | Some m \<Rightarrow>
                    if roles_has m (STAFF_ROLE_ID e) \<or> mem_admin m then None
                    else Some (Send_Status 403 ''Access denied. Staff role required.''))))"

text \<open>\<open>isStaffInGuild\<close>, the per-guild check used by the read-only ticket view.\<close>

definition isStaffInGuild :: "env \<Rightarrow> store \<Rightarrow> platform \<Rightarrow> string option \<Rightarrow> snowflake \<Rightarrow> bool" where
  "isStaffInGuild e st pf gid uid =
     (case guilds_cache_get pf gid of
        None \<Rightarrow> False
      | Some g \<Rightarrow>
          (case members_fetch g uid of
             None \<Rightarrow> False
           | Some m \<Rightarrow>
               (let guildSetting = find (\<lambda>s. Some (gs_guild_id s) = gid) (guild_settings st);
                    staffRoleId = js_or (case guildSetting of None \<Rightarrow> None
                                         | Some s \<Rightarrow> gs_staff_role_id s) (STAFF_ROLE_ID e)
                in roles_has m staffRoleId \<or> mem_admin m)))"

text \<open>
  The handler of POST /api/ticket/:id/close. Every exception inside the \<open>try\<close> block
  ends in the 500 response; what was done before it stays done.
\<close>

definition close_handler ::
  "date \<Rightarrow> request \<Rightarrow> store \<Rightarrow> platform \<Rightarrow> response \<times> store \<times> platform" where
  "close_handler now req st pf =
     (case params_id req of
        None \<Rightarrow> (Json_Error 500 ''Failed to close ticket'', st, pf)
      | Some i \<Rightarrow>
          (case findById st i of
             None \<Rightarrow> (Json_Error 404 ''Ticket not found'', st, pf)
           | Some t \<Rightarrow>
               if status t = Closed then (Json_Error 400 ''Ticket already closed'', st, pf)
               else
                 (case (case channels_fetch pf (channel_id t) of
                          None \<Rightarrow> Some pf
                        | Some c \<Rightarrow> channel_delete pf (c_id c)) of
                    None \<Rightarrow> (Json_Error 500 ''Failed to close ticket'', st, pf)
                  | Some pf1 \<Rightarrow>
                      (case session_user req of
                         None \<Rightarrow> (Json_Error 500 ''Failed to close ticket'', st, pf1)
                       | Some uid \<Rightarrow>
                           (case save_ticket st
                                   (t\<lparr>status := Closed, closed_at := Some now,
                                      closed_by := Some uid\<rparr>) of
                              None \<Rightarrow> (Json_Error 500 ''Failed to close ticket'', st, pf1)
                            | Some st1 \<Rightarrow>
                                (Json_Success, st1,
                                 notify_user pf1 (user_id t) Closed_Via_Dashboard))))))"

text \<open>The handler of POST /api/ticket/:id/delete.\<close>

definition delete_handler ::
  "request \<Rightarrow> store \<Rightarrow> platform \<Rightarrow> response \<times> store \<times> platform" where
  "delete_handler req st pf =
     (case params_id req of
        None \<Rightarrow> (Json_Error 500 ''Failed to delete ticket'', st, pf)
      | Some i \<Rightarrow>
          (case findById st i of
             None \<Rightarrow> (Json_Error 404 ''Ticket not found'', st, pf)
           | Some t \<Rightarrow>
               (case (case channels_fetch pf (channel_id t) of
                        None \<Rightarrow> Some pf
                      | Some c \<Rightarrow> channel_delete pf (c_id c)) of
                  None \<Rightarrow> (Json_Error 500 ''Failed to delete ticket'', st, pf)
                | Some pf1 \<Rightarrow>
                    if \<not> writable st then (Json_Error 500 ''Failed to delete ticket'', st, pf1)
                    else
                      (Json_Success,
                       st\<lparr>messages := filter (\<lambda>m. m_ticket_id m \<noteq> t_id t) (messages st),
                          tickets := filter (\<lambda>x. t_id x \<noteq> i) (tickets st)\<rparr>,
                       pf1))))"

text \<open>The handler of POST /api/ticket/:id/claim.\<close>

definition claim_handler ::
  "date \<Rightarrow> request \<Rightarrow> store \<Rightarrow> platform \<Rightarrow> response \<times> store \<times> platform" where
  "claim_handler now req st pf =
     (case params_id req of
        None \<Rightarrow> (Json_Error 500 ''Failed to claim ticket'', st, pf)
      | Some i \<Rightarrow>
          (case findById st i of
             None \<Rightarrow> (Json_Error 404 ''Ticket not found'', st, pf)
           | Some t \<Rightarrow>
               (case session_user req of
                  None \<Rightarrow> (Json_Error 500 ''Failed to claim ticket'', st, pf)
                | Some uid \<Rightarrow>
                    (case save_ticket st (t\<lparr>claimed_by := Some uid, claimed_at := Some now\<rparr>) of
                       None \<Rightarrow> (Json_Error 500 ''Failed to claim ticket'', st, pf)
                     | Some st1 \<Rightarrow> (Json_Success, st1, pf)))))"

text \<open>
  The handler of POST /api/ticket/:id/note. \<open>content.trim()\<close> removes leading and
  trailing white space and line terminators; the test \<open>content.trim().length === 0\<close>
  is that the content consists of such characters only. Strings are sequences of UTF-8
  bytes here, so the characters \<open>trim\<close> removes are listed by their encodings: tab,
  line feed, vertical tab, form feed, carriage return, space, U+00A0, U+1680, U+2000 to
  U+200A, U+2028, U+2029, U+202F, U+205F, U+3000 and U+FEFF.
\<close>

definition white_space :: "string list" where
  "white_space =
     [[CHR 0x09], [CHR 0x0A], [CHR 0x0B], [CHR 0x0C], [CHR 0x0D], [CHR 0x20],
      [CHR 0xC2, CHR 0xA0],
      [CHR 0xE1, CHR 0x9A, CHR 0x80],
      [CHR 0xE2, CHR 0x80, CHR 0x80], [CHR 0xE2, CHR 0x80, CHR 0x81],
      [CHR 0xE2, CHR 0x80, CHR 0x82], [CHR 0xE2, CHR 0x80, CHR 0x83],
      [CHR 0xE2, CHR 0x80, CHR 0x84], [CHR 0xE2, CHR 0x80, CHR 0x85],
      [CHR 0xE2, CHR 0x80, CHR 0x86], [CHR 0xE2, CHR 0x80, CHR 0x87],
      [CHR 0xE2, CHR 0x80, CHR 0x88], [CHR 0xE2, CHR 0x80, CHR 0x89],
      [CHR 0xE2, CHR 0x80, CHR 0x8A],
      [CHR 0xE2, CHR 0x80, CHR 0xA8], [CHR 0xE2, CHR 0x80, CHR 0xA9],
      [CHR 0xE2, CHR 0x80, CHR 0xAF],
      [CHR 0xE2, CHR 0x81, CHR 0x9F],
      [CHR 0xE3, CHR 0x80, CHR 0x80],
      [CHR 0xEF, CHR 0xBB, CHR 0xBF]]"

text \<open>The rest of the string after one white-space character at its head, if there is one.\<close>

definition drop_white_space :: "string \<Rightarrow> string option" where
  "drop_white_space s =
     (case find (\<lambda>p. take (length p) s = p) white_space of
        None \<Rightarrow> None
      | Some p \<Rightarrow> Some (drop (length p) s))"

function only_white_space :: "string \<Rightarrow> bool" where
  "only_white_space s =
     (if s = [] then True
      else (case drop_white_space s of None \<Rightarrow> False | Some r \<Rightarrow> only_white_space r))"
  by pat_completeness auto
termination
proof (relation "measure length")
  show "wf (measure length)" by simp
next
  fix s r :: string
  assume s: "s \<noteq> []" and d: "drop_white_space s = Some r"
  then obtain p where p: "find (\<lambda>p. take (length p) s = p) white_space = Some p"
    and r: "r = drop (length p) s"
    by (auto simp: drop_white_space_def split: option.splits)
  from p have "p \<in> set white_space" by (auto simp: find_Some_iff)
  then have "p \<noteq> []" by (auto simp: white_space_def)
  with s r show "(r, s) \<in> measure length" by simp
qed

declare only_white_space.simps [simp del]

definition note_handler ::
  "date \<Rightarrow> request \<Rightarrow> store \<Rightarrow> platform \<Rightarrow> response \<times> store \<times> platform" where
  "note_handler now req st pf =
     (case body_content req of
        None \<Rightarrow> (Json_Error 400 ''Note content required'', st, pf)
      | Some content \<Rightarrow>
          if content = [] \<or> only_white_space content
          then (Json_Error 400 ''Note content required'', st, pf)
          else
            (case params_id req of
               None \<Rightarrow> (Json_Error 500 ''Failed to add note'', st, pf)
             | Some i \<Rightarrow>
                 (case findById st i of
                    None \<Rightarrow> (Json_Error 404 ''Ticket not found'', st, pf)
                  | Some t \<Rightarrow>
                      (case session_user req of
                         None \<Rightarrow> (Json_Error 500 ''Failed to add note'', st, pf)
                       | Some uid \<Rightarrow>
                           (case save_ticket st
                                   (t\<lparr>ticket_notes := ticket_notes t @
                                        [\<lparr>note_user_id = uid, note_content = content,
                                          note_timestamp = now\<rparr>]\<rparr>) of
                              None \<Rightarrow> (Json_Error 500 ''Failed to add note'', st, pf)
                            | Some st1 \<Rightarrow> (Json_Success, st1, pf))))))"

text \<open>
  A route \<open>app.post(path, isAuthenticated, isStaff, handler)\<close>: the handler runs only
  when both middlewares call \<open>next()\<close>.
\<close>

definition route ::
  "env \<Rightarrow> request \<Rightarrow> store \<Rightarrow> platform \<Rightarrow>
   (request \<Rightarrow> store \<Rightarrow> platform \<Rightarrow> response \<times> store \<times> platform) \<Rightarrow>
   response \<times> store \<times> platform" where
  "route e req st pf handler =
     (case isAuthenticated req of
        Some r \<Rightarrow> (r, st, pf)
      | None \<Rightarrow>
          (case isStaff e pf req of
             Some r \<Rightarrow> (r, st, pf)
           | None \<Rightarrow> handler req st pf))"

definition api_ticket_close ::
  "env \<Rightarrow> date \<Rightarrow> request \<Rightarrow> store \<Rightarrow> platform \<Rightarrow> response \<times> store \<times> platform" where
  "api_ticket_close e now req st pf = route e req st pf (close_handler now)"

definition api_ticket_delete ::
  "env \<Rightarrow> request \<Rightarrow> store \<Rightarrow> platform \<Rightarrow> response \<times> store \<times> platform" where
  "api_ticket_delete e req st pf = route e req st pf delete_handler"

definition api_ticket_claim ::
  "env \<Rightarrow> date \<Rightarrow> request \<Rightarrow> store \<Rightarrow> platform \<Rightarrow> response \<times> store \<times> platform" where
  "api_ticket_claim e now req st pf = route e req st pf (claim_handler now)"

definition api_ticket_note ::
  "env \<Rightarrow> date \<Rightarrow> request \<Rightarrow> store \<Rightarrow> platform \<Rightarrow> response \<times> store \<times> platform" where
  "api_ticket_note e now req st pf = route e req st pf (note_handler now)"

section \<open>Chat-side buttons: Close and Claim\<close>

text \<open>
  A button press: who pressed, in which channel (with its topic, the bound user id),
  the button's custom id, and whether the interaction is a button at all. The
  handlers return whether they threw, the store, the platform, and the channel whose
  deletion they scheduled with \<open>setTimeout\<close>, if any.
\<close>

record interaction =
  i_user :: user
  i_channel :: channel
  i_customId :: string
  i_isButton :: bool

type_synonym chat_result = "bool \<times> store \<times> platform \<times> snowflake option"

definition handleCloseTicket ::
  "env \<Rightarrow> date \<Rightarrow> interaction \<Rightarrow> store \<Rightarrow> platform \<Rightarrow> chat_result" where
  "handleCloseTicket e now i st pf =
     (let userId = c_topic (i_channel i) in
      case findOneTicket st (\<lambda>t. Some (user_id t) = userId \<and> status t = Open) of
        None \<Rightarrow> (False, st, reply pf (u_id (i_user i)) Not_Found_Or_Closed, None)
      | Some t \<Rightarrow>
          (let pf1 = reply pf (u_id (i_user i)) Closing_In_5;
               pf2 = (case userId of
                        None \<Rightarrow> pf1
                      | Some u \<Rightarrow> notify_user pf1 u (Closed_By (u_tag (i_user i)) (t_id t)))
           in case save_ticket st
                     (t\<lparr>status := Closed, closed_at := Some now,
                        closed_by := Some (u_id (i_user i))\<rparr>) of
                None \<Rightarrow> (True, st, pf2, None)
              | Some st1 \<Rightarrow>
                  (case (if truthy (LOG_CHANNEL_ID e)
                         then (case guilds_cache_get pf2 (Some (c_guild (i_channel i))) of
                                 None \<Rightarrow> None
                               | Some g \<Rightarrow>
                                   (case LOG_CHANNEL_ID e of
                                      None \<Rightarrow> Some pf2
                                    | Some l \<Rightarrow>
                                        if l \<in> set (g_channels_cache g)
                                        then channel_send pf2 l
                                               (Log_Ticket_Closed (u_tag (i_user i))
                                                  (c_name (i_channel i)) (t_id t))
                                        else Some pf2))
                         else Some pf2) of
                     None \<Rightarrow> (True, st1, pf2, None)
                   | Some pf3 \<Rightarrow> (False, st1, pf3, Some (c_id (i_channel i))))))"

text \<open>
  The callback of \<open>setTimeout(..., 5000)\<close>: deletes the channel; an error is logged
  and dropped.
\<close>

definition deferred_delete :: "platform \<Rightarrow> snowflake \<Rightarrow> platform" where
  "deferred_delete pf c = (case channel_delete pf c of None \<Rightarrow> pf | Some pf' \<Rightarrow> pf')"

definition handleClaimTicket ::
  "env \<Rightarrow> date \<Rightarrow> interaction \<Rightarrow> store \<Rightarrow> platform \<Rightarrow> chat_result" where
  "handleClaimTicket e now i st pf =
     (let userId = c_topic (i_channel i) in
      case findOneTicket st (\<lambda>t. Some (user_id t) = userId \<and> status t = Open) of
        None \<Rightarrow> (False, st, reply pf (u_id (i_user i)) Not_Found, None)
      | Some t \<Rightarrow>
          if truthy (claimed_by t)
          then (let claimedUser = (case claimed_by t of
                                     None \<Rightarrow> None
                                   | Some c \<Rightarrow> users_fetch pf c)
                in (False, st,
                    reply pf (u_id (i_user i)) (Already_Claimed (map_option u_tag claimedUser)),
                    None))
          else
            (case save_ticket st
                    (t\<lparr>claimed_by := Some (u_id (i_user i)), claimed_at := Some now\<rparr>) of
               None \<Rightarrow> (True, st, pf, None)
             | Some st1 \<Rightarrow>
                 (False, st1, reply pf (u_id (i_user i)) (Claimed_By (u_id (i_user i))), None)))"

text \<open>
  The \<open>interactionCreate\<close> listener: dispatches on the custom id. Its \<open>catch\<close> block
  replies with the generic error notice and drops the failure of that reply.
  \<open>handleCloseTicket\<close> throws only after it has replied to the interaction, so the
  second reply is rejected and nothing more is delivered; \<open>handleClaimTicket\<close> throws
  before any reply, so the notice is delivered.
\<close>

definition interactionCreate ::
  "env \<Rightarrow> date \<Rightarrow> interaction \<Rightarrow> store \<Rightarrow> platform \<Rightarrow> chat_result" where
  "interactionCreate e now i st pf =
     (if \<not> i_isButton i then (False, st, pf, None)
      else if i_customId i = ''close_ticket''
      then (case handleCloseTicket e now i st pf of
              (threw, st', pf', d) \<Rightarrow> (False, st', pf', d))
      else if i_customId i = ''claim_ticket''
      then (case handleClaimTicket e now i st pf of
              (threw, st', pf', d) \<Rightarrow>
                if threw then (False, st', reply pf' (u_id (i_user i)) Generic_Error, d)
                else (False, st', pf', d))
      else (False, st, pf, None))"

section \<open>Ticket creation\<close>

text \<open>Decimal rendering of a number, as template strings render \<open>Date.now()\<close>.\<close>

function show_nat :: "nat \<Rightarrow> string" where
  "show_nat n =
     (if n < 10 then [char_of (48 + n)]
      else show_nat (n div 10) @ [char_of (48 + n mod 10)])"
  by pat_completeness auto
termination
  by (relation "measure id") auto

declare show_nat.simps [simp del]

text \<open>\<open>user.username.toLowerCase().replace(/[^a-z0-9]/g, '')\<close> on ASCII names.\<close>

definition to_lower :: "char \<Rightarrow> char" where
  "to_lower c =
     (let n = (of_char c :: nat) in if 65 \<le> n \<and> n \<le> 90 then char_of (n + 32) else c)"

definition is_lower_alnum :: "char \<Rightarrow> bool" where
  "is_lower_alnum c =
     (let n = (of_char c :: nat) in (97 \<le> n \<and> n \<le> 122) \<or> (48 \<le> n \<and> n \<le> 57))"

definition channel_name :: "user \<Rightarrow> date \<Rightarrow> string" where
  "channel_name u now =
     ''modmail-'' @ filter is_lower_alnum (map to_lower (u_username u)) @ ''-'' @ show_nat now"

text \<open>
  The configuration \<open>createTicket\<close> works with: the argument, else the setting flagged
  as default, else the first setting.
\<close>

definition resolve_guildConfig :: "store \<Rightarrow> guild_setting option \<Rightarrow> guild_setting option" where
  "resolve_guildConfig st gc =
     (case gc of
        Some c \<Rightarrow> Some c
      | None \<Rightarrow>
          (case find gs_is_default (guild_settings st) of
             Some c \<Rightarrow> Some c
           | None \<Rightarrow> (case guild_settings st of [] \<Rightarrow> None | c # cs \<Rightarrow> Some c)))"

text \<open>The guild to create the channel in: the configured one if cached, else GUILD_ID.\<close>

definition resolve_guild :: "env \<Rightarrow> platform \<Rightarrow> guild_setting option \<Rightarrow> guild option" where
  "resolve_guild e pf gc =
     (case (case gc of
              None \<Rightarrow> None
            | Some c \<Rightarrow> if gs_guild_id c \<noteq> [] then guilds_cache_get pf (Some (gs_guild_id c))
                        else None) of
        Some g \<Rightarrow> Some g
      | None \<Rightarrow> if truthy (GUILD_ID e) then guilds_cache_get pf (GUILD_ID e) else None)"

definition resolve_category :: "env \<Rightarrow> guild \<Rightarrow> guild_setting option \<Rightarrow> snowflake option" where
  "resolve_category e g gc =
     (let categoryId = js_or (case gc of None \<Rightarrow> None | Some c \<Rightarrow> gs_modmail_category_id c)
                             (MODMAIL_CATEGORY_ID e)
      in case categoryId of
           None \<Rightarrow> None
         | Some i \<Rightarrow> if i \<noteq> [] \<and> i \<in> set (g_channels_cache g) then Some i else None)"

definition resolve_staffRole :: "env \<Rightarrow> guild \<Rightarrow> guild_setting option \<Rightarrow> snowflake option" where
  "resolve_staffRole e g gc =
     (let staffRoleId = js_or (case gc of None \<Rightarrow> None | Some c \<Rightarrow> gs_staff_role_id c)
                              (STAFF_ROLE_ID e)
      in case staffRoleId of
           None \<Rightarrow> None
         | Some i \<Rightarrow>
             if i = [] then None
             else if i \<in> set (g_roles_cache g) then Some i
             else if i \<in> set (g_roles g) then Some i
             else None)"

definition permissionOverwrites :: "platform \<Rightarrow> guild \<Rightarrow> snowflake option \<Rightarrow> overwrite list" where
  "permissionOverwrites pf g staffRole =
     [\<lparr>ow_id = g_id g, ow_allow = [], ow_deny = [''ViewChannel'']\<rparr>,
      \<lparr>ow_id = bot_user_id pf,
        ow_allow = [''ViewChannel'', ''SendMessages'', ''ManageChannels''], ow_deny = []\<rparr>] @
     (case staffRole of
        None \<Rightarrow> []
      | Some r \<Rightarrow>
          [\<lparr>ow_id = r,
            ow_allow = [''ViewChannel'', ''SendMessages'', ''ReadMessageHistory'',
                        ''AttachFiles'', ''EmbedLinks''],
            ow_deny = []\<rparr>])"

text \<open>
  \<open>guild.channels.create\<close>: rejects in a guild that refuses it; otherwise the
  platform assigns the next id.
\<close>

definition channels_create ::
  "platform \<Rightarrow> guild \<Rightarrow> string \<Rightarrow> snowflake option \<Rightarrow> string \<Rightarrow> overwrite list \<Rightarrow>
   (channel \<times> platform) option" where
  "channels_create pf g name parent topic ows =
     (if g_id g \<in> set (uncreatable pf) then None
      else
        (let c = \<lparr>c_id = show_nat (next_snowflake pf), c_guild = g_id g, c_name = name,
                  c_topic = Some topic, c_parent = parent, c_overwrites = ows\<rparr>
         in Some (c, pf\<lparr>channels := channels pf @ [c],
                        next_snowflake := Suc (next_snowflake pf)\<rparr>)))"

text \<open>\<open>new Ticket({...}).save()\<close>: the schema defaults fill the other fields.\<close>

definition insert_ticket ::
  "store \<Rightarrow> snowflake \<Rightarrow> snowflake \<Rightarrow> snowflake \<Rightarrow> date \<Rightarrow> (ticket \<times> store) option" where
  "insert_ticket st u g c now =
     (if writable st
      then (let t = \<lparr>t_id = next_oid st, user_id = u, guild_id = Some g, channel_id = c,
                     status = Open, created_at = now, closed_at = None, closed_by = None,
                     claimed_by = None, claimed_at = None, priority = Normal,
                     category = None, ticket_notes = []\<rparr>
            in Some (t, st\<lparr>tickets := tickets st @ [t], next_oid := Suc (next_oid st)\<rparr>))
      else None)"

text \<open>
  \<open>createTicket(user, guildConfig = null)\<close>. The whole body is one \<open>try\<close> block whose
  \<open>catch\<close> returns null: the result is the ticket or \<open>None\<close>, with the store and the
  platform as the steps before the exception left them.
\<close>

definition createTicket ::
  "env \<Rightarrow> date \<Rightarrow> user \<Rightarrow> guild_setting option \<Rightarrow> store \<Rightarrow> platform \<Rightarrow>
   ticket option \<times> store \<times> platform" where
  "createTicket e now u gc0 st pf =
     (let guildConfig = resolve_guildConfig st gc0 in
      case resolve_guild e pf guildConfig of
        None \<Rightarrow> (None, st, pf)
      | Some g \<Rightarrow>
          (let category = resolve_category e g guildConfig;
               staffRole = resolve_staffRole e g guildConfig
           in case channels_create pf g (channel_name u now) category (u_id u)
                     (permissionOverwrites pf g staffRole) of
                None \<Rightarrow> (None, st, pf)
              | Some (c, pf1) \<Rightarrow>
                  (case channel_send pf1 (c_id c) (New_Ticket_Intro (u_id u) staffRole) of
                     None \<Rightarrow> (None, st, pf1)
                   | Some pf2 \<Rightarrow>
                       (case insert_ticket st (u_id u) (g_id g) (c_id c) now of
                          None \<Rightarrow> (None, st, pf2)
                        | Some (t, st1) \<Rightarrow>
                            (case LOG_CHANNEL_ID e of
                               None \<Rightarrow> (Some t, st1, pf2)
                             | Some l \<Rightarrow>
                                 if l \<noteq> [] \<and> l \<in> set (g_channels_cache g)
                                 then (case channel_send pf2 l
                                              (Log_Ticket_Created (u_id u) (c_id c) (t_id t)) of
                                         None \<Rightarrow> (None, st1, pf2)
                                       | Some pf3 \<Rightarrow> (Some t, st1, pf3))
                                 else (Some t, st1, pf2))))))"

section \<open>Inbound direct messages\<close>

record attachment =
  att_url :: string
  att_name :: string
  att_contentType :: "string option"

record dm_message =
  msg_author :: user
  msg_content :: string
  msg_attachments :: "attachment list"

subsection \<open>Destination selection\<close>

text \<open>
  The candidates: \<open>GuildSetting.find()\<close> filtered by \<open>userGuilds.includes(guild_id)\<close>,
  where \<open>userGuilds\<close> holds the ids that \<open>client.guilds.fetch()\<close> returned (the empty
  list when that request failed).
\<close>

definition userGuilds :: "platform \<Rightarrow> snowflake list" where
  "userGuilds pf = (case guilds_fetch pf of None \<Rightarrow> [] | Some ids \<Rightarrow> ids)"

definition availableGuilds :: "store \<Rightarrow> platform \<Rightarrow> guild_setting list" where
  "availableGuilds st pf =
     filter (\<lambda>g. gs_guild_id g \<in> set (userGuilds pf)) (guild_settings st)"

text \<open>\<open>s.replace(pat, '')\<close> with a string pattern: removes the first occurrence.\<close>

fun replace_first :: "string \<Rightarrow> string \<Rightarrow> string" where
  "replace_first pat [] = []"
| "replace_first pat (c # cs) =
     (if take (length pat) (c # cs) = pat then drop (length pat) (c # cs)
      else c # replace_first pat cs)"

text \<open>
  A press on a button of the selection message: who pressed, the button's custom id,
  the time of the press in milliseconds since the collector was created, and the time
  at which the reply to this press returns: the listener is suspended in
  \<open>await interaction.reply(...)\<close> from the press until then.
\<close>

record component_event =
  ce_user :: snowflake
  ce_customId :: string
  ce_time :: nat
  ce_replied :: nat

text \<open>The variables the two listeners of the collector share.\<close>

record selection =
  selectedGuild :: "guild_setting option"
  guildConfigForDM :: "guild_setting option"
  selectionComplete :: bool

definition display_name :: "guild_setting \<Rightarrow> string \<Rightarrow> string" where
  "display_name g alt = (case gs_name g of None \<Rightarrow> alt | Some n \<Rightarrow> if n \<noteq> [] then n else alt)"

text \<open>
  The \<open>collect\<close> listener up to its \<open>await\<close>: the shared variables are written and
  the reply is sent when the press is delivered. The third component tells whether the
  listener goes on to call \<open>collector.stop()\<close> once the reply has returned, at time
  \<open>ce_replied\<close>; until then the collector is still running.
\<close>

definition on_collect ::
  "snowflake \<Rightarrow> guild_setting list \<Rightarrow> component_event \<Rightarrow> selection \<Rightarrow> platform \<Rightarrow>
   selection \<times> platform \<times> bool" where
  "on_collect author avail ev s pf =
     (if ce_user ev \<noteq> author then (s, reply pf (ce_user ev) Only_Own_Messages, False)
      else
        (let guildId = replace_first ''guild_select_'' (ce_customId ev) in
         case find (\<lambda>g. gs_guild_id g = guildId) avail of
           None \<Rightarrow> (s\<lparr>selectedGuild := None\<rparr>, pf, False)
         | Some g \<Rightarrow>
             (s\<lparr>selectedGuild := Some g, guildConfigForDM := Some g, selectionComplete := True\<rparr>,
              reply pf (ce_user ev) (Select_Ack (display_name g guildId)),
              True)))"

text \<open>
  Modelled from the spec: the component collector of the messaging transport, which is
  not part of the repository (``supports a bounded collection window with an
  end-of-window notification''; ``a response at or after the bound is ignored''). With
  \<open>{ time: 60000 }\<close> it hands the presses to the \<open>collect\<close> listener in order of
  arrival while the window is open. The window ends at 60000 ms, or earlier when a
  listener calls \<open>collector.stop()\<close>: \<open>stop\<close> is the earliest time at which a listener
  handled so far will do so. A press at or after the end of the window is not
  collected, nor is any press after it.
\<close>

definition collector_time :: nat where
  "collector_time = 60000"

definition window_ended :: "nat option \<Rightarrow> nat \<Rightarrow> bool" where
  "window_ended stop t =
     (collector_time \<le> t \<or> (case stop of None \<Rightarrow> False | Some t' \<Rightarrow> t' \<le> t))"

definition stop_after :: "nat option \<Rightarrow> nat \<Rightarrow> nat option" where
  "stop_after stop t = (case stop of None \<Rightarrow> Some t | Some t' \<Rightarrow> Some (min t' t))"

fun collector ::
  "snowflake \<Rightarrow> guild_setting list \<Rightarrow> component_event list \<Rightarrow> nat option \<Rightarrow>
   selection \<Rightarrow> platform \<Rightarrow> selection \<times> platform" where
  "collector author avail [] stop s pf = (s, pf)"
| "collector author avail (ev # evs) stop s pf =
     (if window_ended stop (ce_time ev) then (s, pf)
      else
        (case on_collect author avail ev s pf of
           (s', pf', stops) \<Rightarrow>
             collector author avail evs
               (if stops then stop_after stop (ce_replied ev) else stop) s' pf'))"

text \<open>The \<open>end\<close> listener: the timeout notice when nothing was selected.\<close>

definition on_end :: "snowflake \<Rightarrow> selection \<Rightarrow> platform \<Rightarrow> platform" where
  "on_end author s pf =
     (case selectedGuild s of None \<Rightarrow> reply pf author Selection_Timeout | Some g \<Rightarrow> pf)"

text \<open>
  The buttons, one per candidate, as pairs of custom id and label. The button builder
  of the transport validates them when they are set: a custom id of more than 100
  characters or a label of more than 80 raises an exception.
\<close>

definition select_buttons :: "guild_setting list \<Rightarrow> (snowflake \<times> string) list" where
  "select_buttons avail =
     map (\<lambda>(g, idx). (''guild_select_'' @ gs_guild_id g,
                       display_name g (''Server '' @ show_nat (idx + 1))))
         (zip avail [0..<length avail])"

text \<open>
  The \<open>length\<close> of a JavaScript string, in UTF-16 code units, read off its UTF-8
  bytes: one unit for every byte that starts a character, and a second one for the
  characters of four bytes.
\<close>

definition js_length :: "string \<Rightarrow> nat" where
  "js_length s =
     length (filter (\<lambda>c. (of_char c :: nat) < 128 \<or> 192 \<le> (of_char c :: nat)) s) +
     length (filter (\<lambda>c. 240 \<le> (of_char c :: nat)) s)"

definition buttons_valid :: "(snowflake \<times> string) list \<Rightarrow> bool" where
  "buttons_valid bs =
     list_all (\<lambda>(cid, label). js_length cid \<le> 100 \<and> js_length label \<le> 80) bs"

text \<open>
  The outcome of the selection step of \<open>handleDM\<close>: the value of \<open>guildConfigForDM\<close>
  when processing goes on, the early return after an expired window, or the exception
  of the button builder.
\<close>

datatype selected = Resolved "guild_setting option" | Timed_Out | Select_Threw

definition select_destination ::
  "snowflake \<Rightarrow> component_event list \<Rightarrow> guild_setting list \<Rightarrow> store \<Rightarrow> platform \<Rightarrow>
   selected \<times> platform" where
  "select_destination author evs avail st pf =
     (case avail of
        [] \<Rightarrow> (Resolved None, pf)
      | [g] \<Rightarrow> (Resolved (Some g), pf)
      | g # g' # gs \<Rightarrow>
          (case findOneTicket st (\<lambda>t. user_id t = author \<and> status t = Open) of
             Some existingTicket \<Rightarrow>
               (Resolved (find (\<lambda>g. Some (gs_guild_id g) = guild_id existingTicket) avail), pf)
           | None \<Rightarrow>
               (let buttons = select_buttons avail in
                if buttons_valid buttons
                then
                  (let pf1 = reply pf author (Select_Prompt (take 5 buttons));
                       init = \<lparr>selectedGuild = None, guildConfigForDM = None,
                               selectionComplete = False\<rparr>
                   in case collector author avail evs None init pf1 of
                        (s, pf2) \<Rightarrow>
                          (case selectedGuild s of
                             None \<Rightarrow> (Timed_Out, on_end author s pf2)
                           | Some g \<Rightarrow> (Resolved (guildConfigForDM s), on_end author s pf2)))
                else (Select_Threw, pf))))"

subsection \<open>Find or create, channel recovery, relay\<close>

text \<open>
  Lines 1103 to 1138: the query for an open ticket of the user (in the selected guild
  when its id is non-empty), else \<open>createTicket\<close> with the selected configuration.
\<close>

definition find_or_create ::
  "env \<Rightarrow> date \<Rightarrow> user \<Rightarrow> guild_setting \<Rightarrow> store \<Rightarrow> platform \<Rightarrow>
   ticket option \<times> store \<times> platform" where
  "find_or_create e now u gc st pf =
     (case findOneTicket st
             (\<lambda>t. user_id t = u_id u \<and> status t = Open \<and>
                  (if gs_guild_id gc \<noteq> [] then guild_id t = Some (gs_guild_id gc) else True)) of
        Some t \<Rightarrow> (Some t, st, pf)
      | None \<Rightarrow>
          (case createTicket e now u (Some gc) st pf of
             (None, st1, pf1) \<Rightarrow> (None, st1, reply pf1 (u_id u) Create_Failed)
           | (Some t, st1, pf1) \<Rightarrow> (Some t, st1, reply pf1 (u_id u) (Ticket_Created (t_id t)))))"

text \<open>
  Lines 1140 to 1153: fetch the ticket's channel; when that fails, call
  \<open>createTicket(message.author)\<close>, copy the channel id of its result onto the ticket
  at hand, save it and fetch the new channel. The first component tells whether an
  exception escaped.
\<close>

definition ensure_channel ::
  "env \<Rightarrow> date \<Rightarrow> user \<Rightarrow> ticket \<Rightarrow> store \<Rightarrow> platform \<Rightarrow>
   bool \<times> channel option \<times> ticket \<times> store \<times> platform" where
  "ensure_channel e now u t st pf =
     (case channels_fetch pf (channel_id t) of
        Some c \<Rightarrow> (False, Some c, t, st, pf)
      | None \<Rightarrow>
          (case createTicket e now u None st pf of
             (None, st1, pf1) \<Rightarrow> (False, None, t, st1, pf1)
           | (Some newTicket, st1, pf1) \<Rightarrow>
               (let t' = t\<lparr>channel_id := channel_id newTicket\<rparr> in
                case save_ticket st1 t' of
                  None \<Rightarrow> (True, None, t', st1, pf1)
                | Some st2 \<Rightarrow>
                    (case channels_fetch pf1 (channel_id newTicket) of
                       None \<Rightarrow> (True, None, t', st2, pf1)
                     | Some c \<Rightarrow> (False, Some c, t', st2, pf1)))))"

text \<open>Lines 1160 to 1199: forward into the channel, persist the Message row, react.\<close>

definition forward_message ::
  "date \<Rightarrow> dm_message \<Rightarrow> ticket \<Rightarrow> channel \<Rightarrow> store \<Rightarrow> platform \<Rightarrow> bool \<times> store \<times> platform" where
  "forward_message now msg t c st pf =
     (let author = u_id (msg_author msg);
          attachmentUrls = map att_url (msg_attachments msg)
      in case channel_send pf (c_id c)
                (User_Message author (msg_content msg) attachmentUrls (t_id t)) of
           None \<Rightarrow> (True, st, pf)
         | Some pf1 \<Rightarrow>
             (case insert_message st
                     \<lparr>m_ticket_id = t_id t, m_user_id = author, m_content = msg_content msg,
                      m_attachments = attachmentUrls, m_timestamp = now, m_is_staff = False\<rparr> of
                None \<Rightarrow> (True, st, pf1)
              | Some st1 \<Rightarrow> (False, st1, reply pf1 author Reacted_Ok)))"

text \<open>Lines 1103 to 1199, once \<open>guildConfigForDM\<close> is known.\<close>

definition route_ticket ::
  "env \<Rightarrow> date \<Rightarrow> dm_message \<Rightarrow> guild_setting \<Rightarrow> store \<Rightarrow> platform \<Rightarrow>
   bool \<times> store \<times> platform" where
  "route_ticket e now msg gc st pf =
     (case find_or_create e now (msg_author msg) gc st pf of
        (None, st1, pf1) \<Rightarrow> (False, st1, pf1)
      | (Some t, st1, pf1) \<Rightarrow>
          (case ensure_channel e now (msg_author msg) t st1 pf1 of
             (threw, None, t', st2, pf2) \<Rightarrow>
               if threw then (True, st2, pf2)
               else (False, st2, reply pf2 (u_id (msg_author msg)) Generic_Error)
           | (threw, Some c, t', st2, pf2) \<Rightarrow> forward_message now msg t' c st2 pf2))"

text \<open>
  \<open>handleDM(message)\<close>. \<open>evs\<close> are the presses on the selection message, should one be
  shown. The first component of the result tells whether the function threw.
\<close>

definition handleDM ::
  "env \<Rightarrow> date \<Rightarrow> dm_message \<Rightarrow> component_event list \<Rightarrow> store \<Rightarrow> platform \<Rightarrow>
   bool \<times> store \<times> platform" where
  "handleDM e now msg evs st pf =
     (let author = u_id (msg_author msg) in
      case find (\<lambda>b. b_user_id b = author) (blocked_users st) of
        Some blocked \<Rightarrow>
          (False, st,
           reply pf author
             (Blocked_Denied (case js_or (b_reason blocked) (Some ''No reason provided'') of
                                None \<Rightarrow> [] | Some r \<Rightarrow> r)))
      | None \<Rightarrow>
          if userGuilds pf = [] then (False, st, reply pf author Config_Error_Not_Configured)
          else
            (let avail = availableGuilds st pf in
             if avail = [] then (False, st, reply pf author Not_Member_Of_Any)
             else
               (case select_destination author evs avail st pf of
                  (Timed_Out, pf1) \<Rightarrow> (False, st, pf1)
                | (Select_Threw, pf1) \<Rightarrow> (True, st, pf1)
                | (Resolved None, pf1) \<Rightarrow>
                    (False, st, reply pf1 author Config_Error_No_Servers)
                | (Resolved (Some gc), pf1) \<Rightarrow> route_ticket e now msg gc st pf1)))"

section \<open>Notions used to state the properties\<close>

text \<open>
  Staff of the main guild, in the words of the dashboard's check: a member of the guild
  named by GUILD_ID who holds the STAFF_ROLE_ID role or is an administrator.
\<close>

definition main_guild_staff :: "env \<Rightarrow> platform \<Rightarrow> snowflake \<Rightarrow> bool" where
  "main_guild_staff e pf uid =
     (case guilds_cache_get pf (GUILD_ID e) of
        None \<Rightarrow> False
      | Some g \<Rightarrow>
          (case members_fetch g uid of
             None \<Rightarrow> False
           | Some m \<Rightarrow> roles_has m (STAFF_ROLE_ID e) \<or> mem_admin m))"

text \<open>All four mutating endpoints answer \<open>r\<close> and leave store and platform as they were.\<close>

definition all_endpoints_deny ::
  "env \<Rightarrow> date \<Rightarrow> request \<Rightarrow> store \<Rightarrow> platform \<Rightarrow> response \<Rightarrow> bool" where
  "all_endpoints_deny e now req st pf r =
     (api_ticket_close e now req st pf = (r, st, pf) \<and>
      api_ticket_delete e req st pf = (r, st, pf) \<and>
      api_ticket_claim e now req st pf = (r, st, pf) \<and>
      api_ticket_note e now req st pf = (r, st, pf))"

text \<open>The store with the \<open>guild_id\<close> of every ticket rewritten by \<open>f\<close>.\<close>

definition regroup :: "(snowflake option \<Rightarrow> snowflake option) \<Rightarrow> store \<Rightarrow> store" where
  "regroup f st = st\<lparr>tickets := map (guild_id_update f) (tickets st)\<rparr>"

text \<open>
  The destination a press selects, if it is a valid selection: made by the requesting
  user, strictly before the end of the window, for one of the candidates.
\<close>

definition chosen :: "snowflake \<Rightarrow> guild_setting list \<Rightarrow> component_event \<Rightarrow> guild_setting option" where
  "chosen author avail ev =
     (if ce_user ev = author \<and> ce_time ev < collector_time
      then find (\<lambda>g. gs_guild_id g = replace_first ''guild_select_'' (ce_customId ev)) avail
      else None)"

text \<open>
  The states in which \<open>handleDM\<close> shows the selection message: the user is not blocked,
  has more than one candidate destination and no open ticket, and the buttons pass the
  validation of the builder.
\<close>

definition presents_choice :: "dm_message \<Rightarrow> store \<Rightarrow> platform \<Rightarrow> bool" where
  "presents_choice msg st pf =
     (find (\<lambda>b. b_user_id b = u_id (msg_author msg)) (blocked_users st) = None \<and>
      1 < length (availableGuilds st pf) \<and>
      findOneTicket st (\<lambda>t. user_id t = u_id (msg_author msg) \<and> status t = Open) = None \<and>
      buttons_valid (select_buttons (availableGuilds st pf)))"

text \<open>
  The platform after the presses \<open>evs\<close> were handled without a selection: each press of
  another user was answered with the ``only your own messages'' notice.
\<close>

definition rejects :: "snowflake \<Rightarrow> component_event list \<Rightarrow> platform \<Rightarrow> platform" where
  "rejects author evs pf =
     pf\<lparr>sent := sent pf @
          map (\<lambda>x. (To_Reply (ce_user x), Only_Own_Messages)) (filter (\<lambda>x. ce_user x \<noteq> author) evs)\<rparr>"

text \<open>The acknowledgements of a selection among the notices sent.\<close>

definition select_acks :: "platform \<Rightarrow> notice list" where
  "select_acks pf =
     filter (\<lambda>n. case n of Select_Ack d \<Rightarrow> True | _ \<Rightarrow> False) (map snd (sent pf))"

text \<open>The platform after the selection message was sent.\<close>

definition prompted :: "snowflake \<Rightarrow> guild_setting list \<Rightarrow> platform \<Rightarrow> platform" where
  "prompted author avail pf = reply pf author (Select_Prompt (take 5 (select_buttons avail)))"

text \<open>
  The central invariant: no two open tickets share the pair (user id, destination id).
\<close>

definition unique_open :: "store \<Rightarrow> bool" where
  "unique_open st =
     distinct (map (\<lambda>t. (user_id t, guild_id t)) (filter (\<lambda>t. status t = Open) (tickets st)))"

section \<open>Concrete scenarios\<close>

text \<open>
  A main guild 100 (GUILD_ID) whose staff role is 500, with staff members 11 and 12, and
  a second destination 200, where 13 is an administrator. User 7 writes to the bot.
\<close>

definition mk_ticket :: "object_id \<Rightarrow> snowflake \<Rightarrow> snowflake \<Rightarrow> snowflake \<Rightarrow> status \<Rightarrow> ticket" where
  "mk_ticket i u g c s =
     \<lparr>t_id = i, user_id = u, guild_id = Some g, channel_id = c, status = s, created_at = 0,
      closed_at = None, closed_by = None, claimed_by = None, claimed_at = None,
      priority = Normal, category = None, ticket_notes = []\<rparr>"

definition mk_store :: "ticket list \<Rightarrow> store" where
  "mk_store ts = \<lparr>tickets = ts, messages = [], guild_settings = [], blocked_users = [],
                  next_oid = 10, writable = True\<rparr>"

definition ex_env :: env where
  "ex_env = \<lparr>GUILD_ID = Some ''100'', STAFF_ROLE_ID = Some ''500'',
             MODMAIL_CATEGORY_ID = None, LOG_CHANNEL_ID = None\<rparr>"

definition mk_guild :: "snowflake \<Rightarrow> member list \<Rightarrow> guild" where
  "mk_guild i ms = \<lparr>g_id = i, g_name = ''guild'', g_members = ms, g_roles_cache = [],
                    g_roles = [], g_channels_cache = []\<rparr>"

definition mk_channel :: "snowflake \<Rightarrow> snowflake \<Rightarrow> snowflake \<Rightarrow> channel" where
  "mk_channel i g u = \<lparr>c_id = i, c_guild = g, c_name = ''modmail-user-1'', c_topic = Some u,
                       c_parent = None, c_overwrites = []\<rparr>"

definition ex_platform :: platform where
  "ex_platform =
     \<lparr>guilds_fetch = Some [''100'', ''200''],
      guilds_cache =
        [mk_guild ''100'' [\<lparr>mem_user = ''11'', mem_roles = [''500''], mem_admin = False\<rparr>,
                           \<lparr>mem_user = ''12'', mem_roles = [''500''], mem_admin = False\<rparr>],
         mk_guild ''200'' [\<lparr>mem_user = ''13'', mem_roles = [''600''], mem_admin = True\<rparr>]],
      channels = [mk_channel ''900'' ''100'' ''7'', mk_channel ''901'' ''200'' ''7''],
      users = [], bot_user_id = ''1'', next_snowflake = 1000,
      unsendable = [], undeletable = [], uncreatable = [], sent = []\<rparr>"

definition mk_setting :: "snowflake \<Rightarrow> bool \<Rightarrow> guild_setting" where
  "mk_setting g d = \<lparr>gs_guild_id = g, gs_name = None, gs_modmail_category_id = None,
                     gs_staff_role_id = None, gs_log_channel_id = None, gs_is_default = d,
                     gs_created_at = 0\<rparr>"

definition mk_dm :: "snowflake \<Rightarrow> string \<Rightarrow> dm_message" where
  "mk_dm u c = \<lparr>msg_author = \<lparr>u_id = u, u_username = ''Ann'', u_tag = ''ann#0001'', u_created = 0\<rparr>,
                msg_content = c, msg_attachments = []\<rparr>"

definition mk_event :: "snowflake \<Rightarrow> string \<Rightarrow> nat \<Rightarrow> nat \<Rightarrow> component_event" where
  "mk_event u c t r = \<lparr>ce_user = u, ce_customId = c, ce_time = t, ce_replied = r\<rparr>"

definition ex_two_settings :: store where
  "ex_two_settings = (mk_store [])\<lparr>guild_settings := [mk_setting ''100'' True, mk_setting ''200'' False]\<rparr>"

definition mk_user :: "snowflake \<Rightarrow> user" where
  "mk_user i = \<lparr>u_id = i, u_username = ''Staff'', u_tag = ''staff#0001'', u_created = 0\<rparr>"

definition mk_press :: "snowflake \<Rightarrow> channel \<Rightarrow> string \<Rightarrow> interaction" where
  "mk_press u c b = \<lparr>i_user = mk_user u, i_channel = c, i_customId = b, i_isButton = True\<rparr>"

section \<open>Helper lemmas\<close>

lemmas ex_defs = mk_ticket_def mk_store_def ex_env_def mk_guild_def mk_channel_def
  ex_platform_def mk_user_def mk_press_def mk_setting_def mk_dm_def

lemmas dm_defs = handleDM_def userGuilds_def availableGuilds_def select_destination_def
  route_ticket_def find_or_create_def ensure_channel_def forward_message_def createTicket_def
  resolve_guildConfig_def resolve_guild_def resolve_category_def resolve_staffRole_def
  permissionOverwrites_def channels_create_def insert_ticket_def channel_name_def
  findOneTicket_def save_ticket_def insert_message_def channels_fetch_def channel_send_def
  guilds_cache_get_def reply_def truthy_def js_or_def Let_def to_lower_def is_lower_alnum_def

lemma show_nat_1000: "show_nat 1000 = ''1000''"
  by code_simp

lemma show_nat_50: "show_nat 50 = ''50''"
  by code_simp

lemmas api_defs = api_ticket_claim_def api_ticket_close_def api_ticket_delete_def
  api_ticket_note_def route_def isAuthenticated_def isStaff_def guilds_cache_get_def
  members_fetch_def roles_has_def claim_handler_def close_handler_def findById_def
  save_ticket_def channels_fetch_def channel_delete_def notify_user_def users_fetch_def

lemma find_map_guild: "find (\<lambda>t. t_id t = i) (map (guild_id_update f) ts) = map_option (guild_id_update f) (find (\<lambda>t. t_id t = i) ts)"
  by (induction ts) auto

lemma findById_regroup: "findById (st\<lparr>tickets := map (guild_id_update f) (tickets st)\<rparr>) i = map_option (guild_id_update f) (findById st i)"
  by (simp add: findById_def find_map_guild)

lemma claim_handler_regroup:
  "claim_handler now req (regroup f st) pf =
     (case claim_handler now req st pf of (r, st', pf') \<Rightarrow> (r, regroup f st', pf'))"
  by (auto simp: claim_handler_def findById_regroup save_ticket_def regroup_def split: option.splits)

lemma close_handler_regroup:
  "close_handler now req (regroup f st) pf =
     (case close_handler now req st pf of (r, st', pf') \<Rightarrow> (r, regroup f st', pf'))"
  by (auto simp: close_handler_def findById_regroup save_ticket_def regroup_def split: option.splits)

lemma note_handler_regroup:
  "note_handler now req (regroup f st) pf =
     (case note_handler now req st pf of (r, st', pf') \<Rightarrow> (r, regroup f st', pf'))"
  by (auto simp: note_handler_def findById_regroup save_ticket_def regroup_def split: option.splits)

lemma delete_handler_regroup:
  "delete_handler req (regroup f st) pf =
     (case delete_handler req st pf of (r, st', pf') \<Rightarrow> (r, regroup f st', pf'))"
  by (auto simp: delete_handler_def findById_regroup regroup_def filter_map comp_def split: option.splits)

lemma find_save_other:
  "t_id n \<noteq> k \<Longrightarrow>
   find (\<lambda>x. t_id x = k) (map (\<lambda>x. if t_id x = t_id n then n else x) ts) =
   find (\<lambda>x. t_id x = k) ts"
  by (induction ts) auto

lemma distinct_ids_eq:
  "distinct (map t_id ts) \<Longrightarrow> a \<in> set ts \<Longrightarrow> b \<in> set ts \<Longrightarrow> t_id a = t_id b \<Longrightarrow> a = b"
  by (auto simp: distinct_map dest: inj_onD)

lemma findOne_in: "findOneTicket st q = Some t \<Longrightarrow> t \<in> set (tickets st) \<and> q t"
  by (auto simp: findOneTicket_def find_Some_iff)

lemma chat_close_keeps_closed:
  assumes d: "distinct (map t_id (tickets st))"
      and f: "findById st k = Some t'" and c: "status t' = Closed"
  shows "findById (fst (snd (handleCloseTicket e now i st pf))) k = Some t'"
proof (cases "findOneTicket st (\<lambda>x. Some (user_id x) = c_topic (i_channel i) \<and> status x = Open)")
  case None
  then show ?thesis using f by (simp add: handleCloseTicket_def)
next
  case (Some t)
  then have tin: "t \<in> set (tickets st)" and op: "status t = Open" using findOne_in by blast+
  with c have ne: "t \<noteq> t'" by auto
  from f have t'in: "t' \<in> set (tickets st)" and idk: "t_id t' = k"
    by (auto simp: findById_def find_Some_iff)
  have idne: "t_id t \<noteq> k" using distinct_ids_eq[OF d tin t'in] ne idk by auto
  let ?n = "t\<lparr>status := Closed, closed_at := Some now, closed_by := Some (u_id (i_user i))\<rparr>"
  have k: "find (\<lambda>x. t_id x = k) (map (\<lambda>x. if t_id x = t_id ?n then ?n else x) (tickets st)) = Some t'"
    using find_save_other[of ?n k "tickets st"] idne f by (simp add: findById_def)
  show ?thesis using Some f k
    by (auto simp: handleCloseTicket_def Let_def save_ticket_def findById_def split: option.splits)
qed

section \<open>Claim and close\<close>

text \<open>
  The chat-side handlers, for comparison with the dashboard endpoints: a claimed ticket
  is not claimed again, and an error of the deferred channel deletion is dropped after
  the ticket was saved as closed.
\<close>

lemma chat_claim_rejects_claimed_ticket:
  assumes "findOneTicket st (\<lambda>x. Some (user_id x) = c_topic (i_channel i) \<and> status x = Open) = Some t"
      and "truthy (claimed_by t)"
  shows "fst (handleClaimTicket e now i st pf) = False"
    and "fst (snd (handleClaimTicket e now i st pf)) = st"
  using assms by (simp_all add: handleClaimTicket_def Let_def)

lemma deferred_delete_failure_is_dropped:
  "c \<in> set (undeletable pf) \<Longrightarrow> deferred_delete pf c = pf"
  by (simp add: deferred_delete_def channel_delete_def)

text \<open>
  C5. Claim: a claim on a ticket already claimed by a different staff id is a no-op with
  a conflict signal that leaves \<open>claimed_by\<close> and \<open>claimed_at\<close> unchanged. The
  dashboard endpoint has no such check: with ticket 1 claimed by staff 11 at time 20,
  the claim of staff 12 at time 50 succeeds and overwrites both fields. (The chat-side
  handler does reject it.)
\<close>

theorem dashboard_claim_overwrites_foreign_claim:
  "api_ticket_claim ex_env 50 \<lparr>session_user = Some ''12'', params_id = Some 1, body_content = None\<rparr>
     (mk_store [(mk_ticket 1 ''7'' ''100'' ''900'' Open)\<lparr>claimed_by := Some ''11'', claimed_at := Some 20\<rparr>])
     ex_platform
   = (Json_Success,
      mk_store [(mk_ticket 1 ''7'' ''100'' ''900'' Open)\<lparr>claimed_by := Some ''12'', claimed_at := Some 50\<rparr>],
      ex_platform)"
  by (simp add: ex_defs api_defs)

text \<open>
  C6. Claim: on close, a failing deletion of the staff-side channel is not fatal; the
  ticket is closed and persisted all the same. On the dashboard endpoint the channel
  of ticket 1 exists and the platform refuses to delete it: the request ends in the
  500 response and the ticket stays open. (The chat-side handler saves the ticket
  first and drops the error of the deferred deletion.)
\<close>

theorem dashboard_close_aborts_when_channel_delete_fails:
  "api_ticket_close ex_env 50 \<lparr>session_user = Some ''12'', params_id = Some 1, body_content = None\<rparr>
     (mk_store [mk_ticket 1 ''7'' ''100'' ''900'' Open])
     (ex_platform\<lparr>undeletable := [''900'']\<rparr>)
   = (Json_Error 500 ''Failed to close ticket'',
      mk_store [mk_ticket 1 ''7'' ''100'' ''900'' Open],
      ex_platform\<lparr>undeletable := [''900'']\<rparr>)"
  by (simp add: ex_defs api_defs)

text \<open>
  What holds of closing an already closed ticket. Dashboard: a closed ticket gives the
  400 answer ``Ticket already closed'' and neither store nor platform change. Chat
  side: when the user bound to the channel has no open ticket at all, the answer is
  ``Ticket not found or already closed'' and nothing changes; and whatever the press
  does, every closed ticket record (with its \<open>closed_at\<close>) stays in the store unchanged.
\<close>

lemma closed_ticket_record_is_kept:
  "(params_id req = Some i \<and> findById st i = Some t \<and> status t = Closed \<longrightarrow>
      close_handler now req st pf = (Json_Error 400 ''Ticket already closed'', st, pf) \<and>
      snd (api_ticket_close e now req st pf) = (st, pf))
   \<and> (findOneTicket st (\<lambda>x. Some (user_id x) = c_topic (i_channel ia) \<and> status x = Open) = None \<longrightarrow>
      handleCloseTicket e now ia st pf =
        (False, st, reply pf (u_id (i_user ia)) Not_Found_Or_Closed, None))
   \<and> (distinct (map t_id (tickets st)) \<and> findById st k = Some t' \<and> status t' = Closed \<longrightarrow>
      findById (fst (snd (handleCloseTicket e now ia st pf))) k = Some t')"
proof (intro conjI impI)
  assume h: "params_id req = Some i \<and> findById st i = Some t \<and> status t = Closed"
  then show c: "close_handler now req st pf = (Json_Error 400 ''Ticket already closed'', st, pf)"
    by (simp add: close_handler_def)
  show "snd (api_ticket_close e now req st pf) = (st, pf)"
    using c by (simp add: api_ticket_close_def route_def split: option.splits)
next
  assume "findOneTicket st (\<lambda>x. Some (user_id x) = c_topic (i_channel ia) \<and> status x = Open) = None"
  then show "handleCloseTicket e now ia st pf =
        (False, st, reply pf (u_id (i_user ia)) Not_Found_Or_Closed, None)"
    by (simp add: handleCloseTicket_def)
next
  assume "distinct (map t_id (tickets st)) \<and> findById st k = Some t' \<and> status t' = Closed"
  then show "findById (fst (snd (handleCloseTicket e now ia st pf))) k = Some t'"
    using chat_close_keeps_closed by blast
qed

text \<open>
  C7. Claim: every close invocation on an already closed ticket returns a conflict and
  mutates nothing. On the chat side the ticket is looked up by the user id in the
  channel topic, not by the channel: ticket 1 of user 7, bound to channel 900, is
  closed, and the same user has the open ticket 2 in channel 901. A Close press in
  channel 900 is answered with ``Closing ticket in 5 seconds...'', closes ticket 2 and
  schedules the deletion of channel 900.
\<close>

theorem chat_close_in_closed_channel_closes_other_ticket:
  "handleCloseTicket ex_env 50 (mk_press ''11'' (mk_channel ''900'' ''100'' ''7'') ''close_ticket'')
     (mk_store [(mk_ticket 1 ''7'' ''100'' ''900'' Closed)
                  \<lparr>closed_at := Some 30, closed_by := Some ''11''\<rparr>,
                mk_ticket 2 ''7'' ''200'' ''901'' Open])
     ex_platform
   = (False,
      mk_store [(mk_ticket 1 ''7'' ''100'' ''900'' Closed)
                  \<lparr>closed_at := Some 30, closed_by := Some ''11''\<rparr>,
                (mk_ticket 2 ''7'' ''200'' ''901'' Open)
                  \<lparr>status := Closed, closed_at := Some 50, closed_by := Some ''11''\<rparr>],
      reply ex_platform ''11'' Closing_In_5,
      Some ''900'')"
  by (simp add: handleCloseTicket_def Let_def save_ticket_def findOneTicket_def ex_defs
      truthy_def reply_def notify_user_def users_fetch_def)



section \<open>Dashboard authorization\<close>

text \<open>
  C10. The four mutating endpoints authorize against the main guild only: a caller who
  is staff there reaches the handler whatever the ticket; any other caller gets the
  denial of \<open>isStaff\<close> and nothing changes; and the outcome of every endpoint is the
  same, up to the rewritten field, when the \<open>guild_id\<close> of the tickets is rewritten,
  so the ticket's own guild is never consulted.
\<close>

theorem dashboard_mutations_authorize_against_main_guild:
  "(session_user req = Some uid \<and> main_guild_staff e pf uid \<longrightarrow>
      api_ticket_close e now req st pf = close_handler now req st pf \<and>
      api_ticket_delete e req st pf = delete_handler req st pf \<and>
      api_ticket_claim e now req st pf = claim_handler now req st pf \<and>
      api_ticket_note e now req st pf = note_handler now req st pf)
   \<and> (session_user req = Some uid \<and> guilds_cache_get pf (GUILD_ID e) = None \<longrightarrow>
      all_endpoints_deny e now req st pf (Send_Status 500 ''Guild not found''))
   \<and> (session_user req = Some uid \<and> guilds_cache_get pf (GUILD_ID e) = Some g \<and>
      members_fetch g uid = None \<longrightarrow>
      all_endpoints_deny e now req st pf (Send_Status 403 ''You are not a member of the server''))
   \<and> (session_user req = Some uid \<and> guilds_cache_get pf (GUILD_ID e) = Some g \<and>
      members_fetch g uid = Some m \<and> \<not> main_guild_staff e pf uid \<longrightarrow>
      all_endpoints_deny e now req st pf (Send_Status 403 ''Access denied. Staff role required.''))
   \<and> api_ticket_close e now req (regroup f st) pf =
       (case api_ticket_close e now req st pf of (r, st', pf') \<Rightarrow> (r, regroup f st', pf'))
   \<and> api_ticket_delete e req (regroup f st) pf =
       (case api_ticket_delete e req st pf of (r, st', pf') \<Rightarrow> (r, regroup f st', pf'))
   \<and> api_ticket_claim e now req (regroup f st) pf =
       (case api_ticket_claim e now req st pf of (r, st', pf') \<Rightarrow> (r, regroup f st', pf'))
   \<and> api_ticket_note e now req (regroup f st) pf =
       (case api_ticket_note e now req st pf of (r, st', pf') \<Rightarrow> (r, regroup f st', pf'))"
proof (intro conjI impI)
  assume h: "session_user req = Some uid \<and> main_guild_staff e pf uid"
  then have "isAuthenticated req = None" "isStaff e pf req = None"
    by (auto simp: isAuthenticated_def isStaff_def main_guild_staff_def split: option.splits)
  then show "api_ticket_close e now req st pf = close_handler now req st pf"
    "api_ticket_delete e req st pf = delete_handler req st pf"
    "api_ticket_claim e now req st pf = claim_handler now req st pf"
    "api_ticket_note e now req st pf = note_handler now req st pf"
    by (simp_all add: api_ticket_close_def api_ticket_delete_def api_ticket_claim_def
        api_ticket_note_def route_def)
next
  assume "session_user req = Some uid \<and> guilds_cache_get pf (GUILD_ID e) = None"
  then show "all_endpoints_deny e now req st pf (Send_Status 500 ''Guild not found'')"
    by (simp add: all_endpoints_deny_def api_ticket_close_def api_ticket_delete_def
        api_ticket_claim_def api_ticket_note_def route_def isAuthenticated_def isStaff_def)
next
  assume "session_user req = Some uid \<and> guilds_cache_get pf (GUILD_ID e) = Some g \<and>
      members_fetch g uid = None"
  then show "all_endpoints_deny e now req st pf
      (Send_Status 403 ''You are not a member of the server'')"
    by (simp add: all_endpoints_deny_def api_ticket_close_def api_ticket_delete_def
        api_ticket_claim_def api_ticket_note_def route_def isAuthenticated_def isStaff_def)
next
  assume h: "session_user req = Some uid \<and> guilds_cache_get pf (GUILD_ID e) = Some g \<and>
      members_fetch g uid = Some m \<and> \<not> main_guild_staff e pf uid"
  then have n: "\<not> roles_has m (STAFF_ROLE_ID e)" "\<not> mem_admin m"
    by (auto simp: main_guild_staff_def)
  from h n show "all_endpoints_deny e now req st pf
      (Send_Status 403 ''Access denied. Staff role required.'')"
    by (simp add: all_endpoints_deny_def api_ticket_close_def api_ticket_delete_def
        api_ticket_claim_def api_ticket_note_def route_def isAuthenticated_def isStaff_def)
next
  show "api_ticket_close e now req (regroup f st) pf =
       (case api_ticket_close e now req st pf of (r, st', pf') \<Rightarrow> (r, regroup f st', pf'))"
    by (simp add: api_ticket_close_def route_def close_handler_regroup split: option.splits)
next
  show "api_ticket_delete e req (regroup f st) pf =
       (case api_ticket_delete e req st pf of (r, st', pf') \<Rightarrow> (r, regroup f st', pf'))"
    by (simp add: api_ticket_delete_def route_def delete_handler_regroup split: option.splits)
next
  show "api_ticket_claim e now req (regroup f st) pf =
       (case api_ticket_claim e now req st pf of (r, st', pf') \<Rightarrow> (r, regroup f st', pf'))"
    by (simp add: api_ticket_claim_def route_def claim_handler_regroup split: option.splits)
next
  show "api_ticket_note e now req (regroup f st) pf =
       (case api_ticket_note e now req st pf of (r, st', pf') \<Rightarrow> (r, regroup f st', pf'))"
    by (simp add: api_ticket_note_def route_def note_handler_regroup split: option.splits)
qed

theorem dashboard_mutations_authorize_against_main_guild_witness:
  "isStaffInGuild ex_env
      (mk_store [mk_ticket 1 ''7'' ''100'' ''900'' Open, mk_ticket 2 ''7'' ''200'' ''901'' Open])
      ex_platform (Some ''200'') ''13''
   \<and> all_endpoints_deny ex_env 50
      \<lparr>session_user = Some ''13'', params_id = Some 2, body_content = Some ''seen''\<rparr>
      (mk_store [mk_ticket 1 ''7'' ''100'' ''900'' Open, mk_ticket 2 ''7'' ''200'' ''901'' Open])
      ex_platform (Send_Status 403 ''You are not a member of the server'')
   \<and> \<not> isStaffInGuild ex_env
      (mk_store [mk_ticket 1 ''7'' ''100'' ''900'' Open, mk_ticket 2 ''7'' ''200'' ''901'' Open])
      ex_platform (Some ''200'') ''12''
   \<and> api_ticket_close ex_env 50
      \<lparr>session_user = Some ''12'', params_id = Some 2, body_content = None\<rparr>
      (mk_store [mk_ticket 1 ''7'' ''100'' ''900'' Open, mk_ticket 2 ''7'' ''200'' ''901'' Open])
      ex_platform
     = (Json_Success,
        mk_store [mk_ticket 1 ''7'' ''100'' ''900'' Open,
                  (mk_ticket 2 ''7'' ''200'' ''901'' Open)
                    \<lparr>status := Closed, closed_at := Some 50, closed_by := Some ''12''\<rparr>],
        ex_platform\<lparr>channels := [mk_channel ''900'' ''100'' ''7'']\<rparr>)"
proof -
  let ?st = "mk_store [mk_ticket 1 ''7'' ''100'' ''900'' Open, mk_ticket 2 ''7'' ''200'' ''901'' Open]"
  let ?r13 = "\<lparr>session_user = Some ''13'', params_id = Some 2, body_content = Some ''seen''\<rparr>"
  let ?r12 = "\<lparr>session_user = Some ''12'', params_id = Some 2, body_content = None\<rparr>"
  let ?g = "mk_guild ''100'' [\<lparr>mem_user = ''11'', mem_roles = [''500''], mem_admin = False\<rparr>,
                           \<lparr>mem_user = ''12'', mem_roles = [''500''], mem_admin = False\<rparr>]"
  have s13: "isStaffInGuild ex_env ?st ex_platform (Some ''200'') ''13''"
    and s12: "\<not> isStaffInGuild ex_env ?st ex_platform (Some ''200'') ''12''"
    by (simp_all add: isStaffInGuild_def guilds_cache_get_def members_fetch_def ex_defs)
  have h13: "session_user ?r13 = Some ''13'' \<and> guilds_cache_get ex_platform (GUILD_ID ex_env) = Some ?g
      \<and> members_fetch ?g ''13'' = None"
    by (simp add: guilds_cache_get_def members_fetch_def ex_defs)
  have h12: "session_user ?r12 = Some ''12'' \<and> main_guild_staff ex_env ex_platform ''12''"
    by (simp add: main_guild_staff_def guilds_cache_get_def members_fetch_def roles_has_def ex_defs)
  have d: "all_endpoints_deny ex_env 50 ?r13 ?st ex_platform
      (Send_Status 403 ''You are not a member of the server'')"
    using dashboard_mutations_authorize_against_main_guild
            [of ?r13 "''13''" ex_env ex_platform 50 ?st ?g] h13 by blast
  have c: "api_ticket_close ex_env 50 ?r12 ?st ex_platform = close_handler 50 ?r12 ?st ex_platform"
    using dashboard_mutations_authorize_against_main_guild
            [of ?r12 "''12''" ex_env ex_platform 50 ?st] h12 by blast
  have v: "close_handler 50 ?r12 ?st ex_platform
     = (Json_Success,
        mk_store [mk_ticket 1 ''7'' ''100'' ''900'' Open,
                  (mk_ticket 2 ''7'' ''200'' ''901'' Open)
                    \<lparr>status := Closed, closed_at := Some 50, closed_by := Some ''12''\<rparr>],
        ex_platform\<lparr>channels := [mk_channel ''900'' ''100'' ''7'']\<rparr>)"
    by (simp add: close_handler_def findById_def save_ticket_def channels_fetch_def
        channel_delete_def notify_user_def users_fetch_def ex_defs)
  from s13 s12 d c v show ?thesis by simp
qed

section \<open>Routing of direct messages\<close>

text \<open>
  What \<open>createTicket\<close> does to the store: nothing, or one new open ticket of the user
  in the resolved guild; the Message rows stay. A call that returns a ticket has saved
  it. The find-or-create step keeps the invariant when the selected destination is in
  the client cache; the recovery step keeps the id of the ticket and the Message rows.
\<close>

lemma createTicket_tickets:
  "tickets (fst (snd (createTicket e now u gc st pf))) = tickets st \<or>
   (\<exists>g c. resolve_guild e pf (resolve_guildConfig st gc) = Some g \<and>
      tickets (fst (snd (createTicket e now u gc st pf))) =
        tickets st @ [\<lparr>t_id = next_oid st, user_id = u_id u, guild_id = Some (g_id g),
                        channel_id = c, status = Open, created_at = now, closed_at = None,
                        closed_by = None, claimed_by = None, claimed_at = None,
                        priority = Normal, category = None, ticket_notes = []\<rparr>])"
  by (auto simp: createTicket_def Let_def insert_ticket_def split: option.splits prod.splits if_splits)

lemma createTicket_some_saved:
  "fst (createTicket e now u gc st pf) = Some t \<Longrightarrow>
   t \<in> set (tickets (fst (snd (createTicket e now u gc st pf)))) \<and> status t = Open \<and>
   user_id t = u_id u"
  by (auto simp: createTicket_def Let_def insert_ticket_def split: option.splits prod.splits if_splits)

lemma createTicket_messages:
  "messages (fst (snd (createTicket e now u gc st pf))) = messages st"
  by (auto simp: createTicket_def Let_def insert_ticket_def split: option.splits prod.splits if_splits)

lemma resolve_guild_selected:
  assumes "gs_guild_id gc \<noteq> []" and "guilds_cache_get pf (Some (gs_guild_id gc)) = Some g"
  shows "resolve_guild e pf (resolve_guildConfig st (Some gc)) = Some g \<and> g_id g = gs_guild_id gc"
proof -
  from assms(2) have "find (\<lambda>x. g_id x = gs_guild_id gc) (guilds_cache pf) = Some g"
    by (simp add: guilds_cache_get_def)
  then have "g_id g = gs_guild_id gc" by (auto simp: find_Some_iff)
  then show ?thesis using assms by (simp add: resolve_guild_def resolve_guildConfig_def)
qed

lemma find_or_create_keeps_unique_open:
  assumes u: "unique_open st"
      and n: "gs_guild_id gc \<noteq> []"
      and c: "guilds_cache_get pf (Some (gs_guild_id gc)) = Some g"
  shows "unique_open (fst (snd (find_or_create e now u gc st pf)))"
proof (cases "findOneTicket st (\<lambda>t. user_id t = u_id u \<and> status t = Open \<and>
                  (if gs_guild_id gc \<noteq> [] then guild_id t = Some (gs_guild_id gc) else True))")
  case (Some t)
  then show ?thesis using u by (simp add: find_or_create_def)
next
  case None
  then have no: "\<forall>t\<in>set (tickets st). \<not> (user_id t = u_id u \<and> status t = Open \<and> guild_id t = Some (gs_guild_id gc))"
    using n by (auto simp: findOneTicket_def find_None_iff)
  have st': "fst (snd (find_or_create e now u gc st pf)) = fst (snd (createTicket e now u (Some gc) st pf))"
    using None by (simp add: find_or_create_def split: prod.splits option.splits)
  from resolve_guild_selected[OF n c] have rg: "resolve_guild e pf (resolve_guildConfig st (Some gc)) = Some g"
    and gid: "g_id g = gs_guild_id gc" by simp_all
  from createTicket_tickets[of e now u "Some gc" st pf]
  show ?thesis
  proof
    assume "tickets (fst (snd (createTicket e now u (Some gc) st pf))) = tickets st"
    then show ?thesis using u st' by (simp add: unique_open_def)
  next
    assume "\<exists>g c. resolve_guild e pf (resolve_guildConfig st (Some gc)) = Some g \<and>
      tickets (fst (snd (createTicket e now u (Some gc) st pf))) =
        tickets st @ [\<lparr>t_id = next_oid st, user_id = u_id u, guild_id = Some (g_id g),
                        channel_id = c, status = Open, created_at = now, closed_at = None,
                        closed_by = None, claimed_by = None, claimed_at = None,
                        priority = Normal, category = None, ticket_notes = []\<rparr>]"
    then obtain ch where "tickets (fst (snd (createTicket e now u (Some gc) st pf))) =
        tickets st @ [\<lparr>t_id = next_oid st, user_id = u_id u, guild_id = Some (gs_guild_id gc),
                        channel_id = ch, status = Open, created_at = now, closed_at = None,
                        closed_by = None, claimed_by = None, claimed_at = None,
                        priority = Normal, category = None, ticket_notes = []\<rparr>]"
      using rg gid by auto
    then show ?thesis using u no st' by (auto simp: unique_open_def)
  qed
qed

lemma ensure_channel_keeps_id_and_messages:
  "ensure_channel e now u t st pf = (threw, c, t', st', pf') \<Longrightarrow>
   t_id t' = t_id t \<and> messages st' = messages st"
  using createTicket_messages[of e now u None st pf]
  by (auto simp: ensure_channel_def Let_def save_ticket_def split: option.splits prod.splits if_splits)

text \<open>
  C1. Claim: every engine operation keeps at most one open ticket per (user,
  destination). The channel-recovery path breaks it: user 7 has the open ticket 1 in
  guild 100, whose channel 900 no longer exists. The next direct message calls
  \<open>createTicket\<close> for the replacement channel, which also saves a new open ticket 10
  for the same user and guild: the store satisfies the invariant before and not after.
\<close>

theorem channel_recovery_duplicates_open_ticket:
  "unique_open ((mk_store [mk_ticket 1 ''7'' ''100'' ''900'' Open])\<lparr>guild_settings := [mk_setting ''100'' True]\<rparr>)
   \<and> \<not> unique_open (fst (snd (handleDM ex_env 50 (mk_dm ''7'' ''Hello again'') []
        ((mk_store [mk_ticket 1 ''7'' ''100'' ''900'' Open])\<lparr>guild_settings := [mk_setting ''100'' True]\<rparr>)
        (ex_platform\<lparr>channels := []\<rparr>))))
   \<and> map (\<lambda>t. (t_id t, user_id t, guild_id t, channel_id t, status t))
        (tickets (fst (snd (handleDM ex_env 50 (mk_dm ''7'' ''Hello again'') []
        ((mk_store [mk_ticket 1 ''7'' ''100'' ''900'' Open])\<lparr>guild_settings := [mk_setting ''100'' True]\<rparr>)
        (ex_platform\<lparr>channels := []\<rparr>)))))
     = [(1, ''7'', Some ''100'', ''1000'', Open), (10, ''7'', Some ''100'', ''1000'', Open)]"
  by (simp add: dm_defs ex_defs unique_open_def show_nat_1000 show_nat_50)

text \<open>
  C2. Claim: when the channel of an open ticket is gone, the next direct message creates
  a replacement channel in the ticket's destination and stores its id on the same
  ticket, without another open ticket record. With the default destination 100 and the
  ticket in destination 200: ticket 1 does keep its id and gets the new channel id,
  but the channel 1000 is created in guild 100, and a second open ticket 10 of the
  user (guild 100, same channel) is saved.
\<close>

theorem channel_recovery_creates_second_ticket:
  "map (\<lambda>t. (t_id t, user_id t, guild_id t, channel_id t, status t))
        (tickets (fst (snd (handleDM ex_env 50 (mk_dm ''7'' ''Hello again'') []
        ((mk_store [mk_ticket 1 ''7'' ''200'' ''901'' Open])
           \<lparr>guild_settings := [mk_setting ''100'' True, mk_setting ''200'' False]\<rparr>)
        (ex_platform\<lparr>channels := []\<rparr>)))))
     = [(1, ''7'', Some ''200'', ''1000'', Open), (10, ''7'', Some ''100'', ''1000'', Open)]
   \<and> map (\<lambda>c. (c_id c, c_guild c))
        (channels (snd (snd (handleDM ex_env 50 (mk_dm ''7'' ''Hello again'') []
        ((mk_store [mk_ticket 1 ''7'' ''200'' ''901'' Open])
           \<lparr>guild_settings := [mk_setting ''100'' True, mk_setting ''200'' False]\<rparr>)
        (ex_platform\<lparr>channels := []\<rparr>)))))
     = [(''1000'', ''100'')]"
  by (simp add: dm_defs ex_defs show_nat_1000 show_nat_50)

text \<open>
  C3. Claim: the candidate destinations are those that are configured, host the bot and
  have the sending user as a member. The filter only compares with the guilds
  \<open>client.guilds.fetch()\<close> returns, the guilds of the bot: guild 200 is a candidate
  for user 7, who is not among its members, and the message opens a ticket there.
\<close>

theorem candidates_ignore_user_membership:
  "map gs_guild_id (availableGuilds ((mk_store [])\<lparr>guild_settings := [mk_setting ''200'' True]\<rparr>) ex_platform)
     = [''200'']
   \<and> map_option (\<lambda>g. members_fetch g ''7'') (guilds_cache_get ex_platform (Some ''200'')) = Some None
   \<and> map (\<lambda>t. (user_id t, guild_id t, status t))
        (tickets (fst (snd (handleDM ex_env 50 (mk_dm ''7'' ''Hello'') []
           ((mk_store [])\<lparr>guild_settings := [mk_setting ''200'' True]\<rparr>) ex_platform))))
     = [(''7'', Some ''200'', Open)]"
  by (simp add: dm_defs ex_defs show_nat_1000 show_nat_50 members_fetch_def)

text \<open>
  C8. Claim: when \<open>createTicket\<close> returns null, no open ticket row of the user was
  saved by that call. With LOG_CHANNEL_ID set to a cached channel that refuses the
  message, the exception of \<open>logChannel.send\<close> comes after \<open>ticket.save()\<close>: the
  result is null and the open ticket 10 is in the store.
\<close>

theorem createTicket_null_after_save:
  "fst (createTicket (ex_env\<lparr>LOG_CHANNEL_ID := Some ''950''\<rparr>) 50 (msg_author (mk_dm ''7'' ''Hello''))
         (Some (mk_setting ''100'' True))
         ((mk_store [])\<lparr>guild_settings := [mk_setting ''100'' True]\<rparr>)
         (ex_platform\<lparr>guilds_cache := [(mk_guild ''100'' [])\<lparr>g_channels_cache := [''950'']\<rparr>],
                       unsendable := [''950'']\<rparr>)) = None
   \<and> map (\<lambda>t. (t_id t, user_id t, guild_id t, channel_id t, status t))
        (tickets (fst (snd (createTicket (ex_env\<lparr>LOG_CHANNEL_ID := Some ''950''\<rparr>) 50
         (msg_author (mk_dm ''7'' ''Hello''))
         (Some (mk_setting ''100'' True))
         ((mk_store [])\<lparr>guild_settings := [mk_setting ''100'' True]\<rparr>)
         (ex_platform\<lparr>guilds_cache := [(mk_guild ''100'' [])\<lparr>g_channels_cache := [''950'']\<rparr>],
                       unsendable := [''950'']\<rparr>)))))
     = [(10, ''7'', Some ''100'', ''1000'', Open)]"
  by (simp add: dm_defs ex_defs show_nat_1000 show_nat_50)

section \<open>The selection window\<close>

lemma rejects_Nil [simp]: "rejects author [] pf = pf"
  by (simp add: rejects_def)

lemma rejects_Cons:
  "rejects author (x # xs) pf =
     rejects author xs (if ce_user x \<noteq> author then reply pf (ce_user x) Only_Own_Messages else pf)"
  by (simp add: rejects_def reply_def)

lemma on_collect_not_chosen:
  assumes "ce_time x < collector_time" and "chosen author avail x = None"
      and "selectedGuild s = None"
  shows "on_collect author avail x s pf =
     (s, if ce_user x \<noteq> author then reply pf (ce_user x) Only_Own_Messages else pf, False)"
proof (cases "ce_user x = author")
  case True
  with assms have "find (\<lambda>g. gs_guild_id g = replace_first ''guild_select_'' (ce_customId x)) avail = None"
    by (simp add: chosen_def)
  with True assms(3) show ?thesis by (simp add: on_collect_def Let_def)
next
  case False
  then show ?thesis by (simp add: on_collect_def)
qed

lemma collector_skip:
  "selectedGuild s = None \<Longrightarrow>
   list_all (\<lambda>x. ce_time x < collector_time \<and> chosen author avail x = None) pre \<Longrightarrow>
   collector author avail (pre @ rest) None s pf =
     collector author avail rest None s (rejects author pre pf)"
proof (induction pre arbitrary: pf)
  case Nil
  then show ?case by simp
next
  case (Cons x pre)
  from Cons.prems have t: "ce_time x < collector_time" and c: "chosen author avail x = None"
    and r: "list_all (\<lambda>x. ce_time x < collector_time \<and> chosen author avail x = None) pre"
    by simp_all
  from t have w: "\<not> window_ended None (ce_time x)" by (simp add: window_ended_def)
  show ?case
    using w on_collect_not_chosen[OF t c Cons.prems(1)] Cons.IH[OF Cons.prems(1) r]
    by (simp add: rejects_Cons)
qed

lemma collector_hit:
  assumes "chosen author avail ev = Some g"
      and "list_all (\<lambda>x. ce_replied ev \<le> ce_time x) post"
  shows "collector author avail (ev # post) None s pf =
     (s\<lparr>selectedGuild := Some g, guildConfigForDM := Some g, selectionComplete := True\<rparr>,
      reply pf author
        (Select_Ack (display_name g (replace_first ''guild_select_'' (ce_customId ev)))))"
proof -
  from assms(1) have u: "ce_user ev = author" and t: "ce_time ev < collector_time"
    and f: "find (\<lambda>g. gs_guild_id g = replace_first ''guild_select_'' (ce_customId ev)) avail = Some g"
    by (auto simp: chosen_def split: if_splits)
  from t have w: "\<not> window_ended None (ce_time ev)" by (simp add: window_ended_def)
  have e: "collector author avail post (Some (ce_replied ev)) s' pf' = (s', pf')" for s' pf'
  proof (cases post)
    case Nil
    then show ?thesis by simp
  next
    case (Cons x xs)
    with assms(2) have "window_ended (Some (ce_replied ev)) (ce_time x)"
      by (simp add: window_ended_def)
    with Cons show ?thesis by simp
  qed
  show ?thesis using u f w e by (simp add: on_collect_def Let_def stop_after_def)
qed

lemma collector_none:
  "selectedGuild s = None \<Longrightarrow> list_all (\<lambda>x. chosen author avail x = None) evs \<Longrightarrow>
   collector author avail evs None s pf =
     (s, rejects author (takeWhile (\<lambda>x. ce_time x < collector_time) evs) pf)"
proof (induction evs arbitrary: pf)
  case Nil
  then show ?case by simp
next
  case (Cons x evs)
  from Cons.prems have c: "chosen author avail x = None"
    and r: "list_all (\<lambda>x. chosen author avail x = None) evs" by simp_all
  show ?case
  proof (cases "ce_time x < collector_time")
    case False
    then show ?thesis by (simp add: window_ended_def)
  next
    case t: True
    then have w: "\<not> window_ended None (ce_time x)" by (simp add: window_ended_def)
    show ?thesis
      using t w on_collect_not_chosen[OF t c Cons.prems(1)] Cons.IH[OF Cons.prems(1) r]
      by (simp add: rejects_Cons)
  qed
qed

lemma handleDM_prompt:
  assumes "presents_choice msg st pf"
  shows "handleDM e now msg evs st pf =
     (case collector (u_id (msg_author msg)) (availableGuilds st pf) evs None
             \<lparr>selectedGuild = None, guildConfigForDM = None, selectionComplete = False\<rparr>
             (prompted (u_id (msg_author msg)) (availableGuilds st pf) pf) of
        (s, pf2) \<Rightarrow>
          (case selectedGuild s of
             None \<Rightarrow> (False, st, on_end (u_id (msg_author msg)) s pf2)
           | Some g \<Rightarrow>
               (case guildConfigForDM s of
                  None \<Rightarrow> (False, st, reply (on_end (u_id (msg_author msg)) s pf2)
                                        (u_id (msg_author msg)) Config_Error_No_Servers)
                | Some gc \<Rightarrow> route_ticket e now msg gc st (on_end (u_id (msg_author msg)) s pf2))))"
proof -
  from assms obtain g g' gs where a: "availableGuilds st pf = g # g' # gs"
    by (cases "availableGuilds st pf" rule: list.exhaust; simp add: presents_choice_def;
        cases "tl (availableGuilds st pf)"; simp)
  have ug: "userGuilds pf \<noteq> []" using a by (auto simp: availableGuilds_def)
  have bv: "buttons_valid (select_buttons (g # g' # gs))"
    using assms a by (simp add: presents_choice_def)
  show ?thesis using assms a ug bv
    by (simp add: handleDM_def presents_choice_def select_destination_def Let_def prompted_def
        split: prod.splits option.splits)
qed

text \<open>
  What holds of the window when the selection message is shown. A press of any other
  user is answered and changes nothing. If the presses \<open>pre\<close> arrive before the deadline
  without a valid selection, \<open>ev\<close> is a valid selection of the requesting user, and every
  later press arrives when the reply to \<open>ev\<close> has returned, the message is routed to
  the destination of \<open>ev\<close> with one acknowledgement. If no press is a valid selection,
  the user gets the timeout notice and the store is unchanged.
\<close>

lemma selection_window_without_overlap:
  "(ce_user x \<noteq> author \<longrightarrow>
      on_collect author avail x s p = (s, reply p (ce_user x) Only_Own_Messages, False))
   \<and> (presents_choice msg st pf \<and>
      list_all (\<lambda>x. ce_time x < collector_time \<and>
                     chosen (u_id (msg_author msg)) (availableGuilds st pf) x = None) pre \<and>
      chosen (u_id (msg_author msg)) (availableGuilds st pf) ev = Some g \<and>
      list_all (\<lambda>x. ce_replied ev \<le> ce_time x) post \<longrightarrow>
        handleDM e now msg (pre @ ev # post) st pf =
          route_ticket e now msg g st
            (reply (rejects (u_id (msg_author msg)) pre
                      (prompted (u_id (msg_author msg)) (availableGuilds st pf) pf))
               (u_id (msg_author msg))
               (Select_Ack (display_name g (replace_first ''guild_select_'' (ce_customId ev))))))
   \<and> (presents_choice msg st pf \<and>
      list_all (\<lambda>x. chosen (u_id (msg_author msg)) (availableGuilds st pf) x = None) evs \<longrightarrow>
        handleDM e now msg evs st pf =
          (False, st,
           reply (rejects (u_id (msg_author msg)) (takeWhile (\<lambda>x. ce_time x < collector_time) evs)
                    (prompted (u_id (msg_author msg)) (availableGuilds st pf) pf))
                 (u_id (msg_author msg)) Selection_Timeout))"
proof (intro conjI impI)
  assume "ce_user x \<noteq> author"
  then show "on_collect author avail x s p = (s, reply p (ce_user x) Only_Own_Messages, False)"
    by (simp add: on_collect_def)
next
  let ?a = "u_id (msg_author msg)"
  let ?av = "availableGuilds st pf"
  let ?init = "\<lparr>selectedGuild = None, guildConfigForDM = None, selectionComplete = False\<rparr>"
  assume h: "presents_choice msg st pf \<and>
      list_all (\<lambda>x. ce_time x < collector_time \<and> chosen ?a ?av x = None) pre \<and>
      chosen ?a ?av ev = Some g \<and> list_all (\<lambda>x. ce_replied ev \<le> ce_time x) post"
  have "collector ?a ?av (pre @ ev # post) None ?init (prompted ?a ?av pf)
        = collector ?a ?av (ev # post) None ?init (rejects ?a pre (prompted ?a ?av pf))"
    using h by (intro collector_skip) simp_all
  also have "\<dots> = (?init\<lparr>selectedGuild := Some g, guildConfigForDM := Some g,
                          selectionComplete := True\<rparr>,
                    reply (rejects ?a pre (prompted ?a ?av pf)) ?a
                      (Select_Ack (display_name g (replace_first ''guild_select_'' (ce_customId ev)))))"
    using h by (intro collector_hit) simp_all
  finally show "handleDM e now msg (pre @ ev # post) st pf =
          route_ticket e now msg g st
            (reply (rejects ?a pre (prompted ?a ?av pf)) ?a
               (Select_Ack (display_name g (replace_first ''guild_select_'' (ce_customId ev)))))"
    using h by (simp add: handleDM_prompt on_end_def)
next
  let ?a = "u_id (msg_author msg)"
  let ?av = "availableGuilds st pf"
  let ?init = "\<lparr>selectedGuild = None, guildConfigForDM = None, selectionComplete = False\<rparr>"
  assume h: "presents_choice msg st pf \<and> list_all (\<lambda>x. chosen ?a ?av x = None) evs"
  have "collector ?a ?av evs None ?init (prompted ?a ?av pf)
        = (?init, rejects ?a (takeWhile (\<lambda>x. ce_time x < collector_time) evs) (prompted ?a ?av pf))"
    using h by (intro collector_none) simp_all
  then show "handleDM e now msg evs st pf =
          (False, st,
           reply (rejects ?a (takeWhile (\<lambda>x. ce_time x < collector_time) evs) (prompted ?a ?av pf))
                 ?a Selection_Timeout)"
    using h by (simp add: handleDM_prompt on_end_def)
qed

lemma show_nat_1: "show_nat (Suc 0) = ''1''"
  by code_simp

lemma show_nat_2: "show_nat (Suc (Suc 0)) = ''2''"
  by code_simp

lemmas sel_defs = on_collect_def window_ended_def stop_after_def collector_time_def on_end_def
  select_buttons_def buttons_valid_def js_length_def display_name_def select_acks_def
  mk_event_def ex_two_settings_def

text \<open>
  C4. Claim: a selection of the requesting user before the deadline resolves the window
  exactly once to that destination, and any later selection is a no-op. The listener
  writes \<open>selectedGuild\<close> and \<open>guildConfigForDM\<close> before it awaits the reply and stops
  the collector only afterwards: user 7 presses the button of guild 200 at 2000 ms,
  whose reply returns at 2100 ms, and the button of guild 100 at 2050 ms. Both presses
  are acknowledged and the ticket is opened in guild 100, the later selection. (With
  the second press at 2100 ms, after the stop, the ticket is opened in guild 200.)
\<close>

theorem second_press_during_reply_overrides_first:
  "map (\<lambda>t. (user_id t, guild_id t, status t))
     (tickets (fst (snd (handleDM ex_env 50 (mk_dm ''7'' ''Hello'')
        [mk_event ''7'' ''guild_select_200'' 2000 2100, mk_event ''7'' ''guild_select_100'' 2050 2150]
        ex_two_settings ex_platform))))
     = [(''7'', Some ''100'', Open)]
   \<and> select_acks (snd (snd (handleDM ex_env 50 (mk_dm ''7'' ''Hello'')
        [mk_event ''7'' ''guild_select_200'' 2000 2100, mk_event ''7'' ''guild_select_100'' 2050 2150]
        ex_two_settings ex_platform)))
     = [Select_Ack ''200'', Select_Ack ''100'']
   \<and> map (\<lambda>t. (user_id t, guild_id t, status t))
     (tickets (fst (snd (handleDM ex_env 50 (mk_dm ''7'' ''Hello'')
        [mk_event ''7'' ''guild_select_200'' 2000 2100, mk_event ''7'' ''guild_select_100'' 2100 2200]
        ex_two_settings ex_platform))))
     = [(''7'', Some ''200'', Open)]
   \<and> select_acks (snd (snd (handleDM ex_env 50 (mk_dm ''7'' ''Hello'')
        [mk_event ''7'' ''guild_select_200'' 2000 2100, mk_event ''7'' ''guild_select_100'' 2100 2200]
        ex_two_settings ex_platform)))
     = [Select_Ack ''200'']"
  by (simp add: dm_defs ex_defs sel_defs show_nat_1000 show_nat_50 show_nat_1 show_nat_2)

end
